theory Spec2Isabelle
  imports Complex_Main "HOL-Library.Sublist"
begin

section \<open>Python values, dictionaries and exceptions\<close>

text \<open>
  The training launcher \<^verbatim>\<open>swift/ui/llm_train/llm_train.py\<close> works on dynamically typed
  values: form values (strings, booleans, numbers, lists of strings, \<^verbatim>\<open>None\<close>) and
  whatever \<^verbatim>\<open>json.loads\<close> returns for the free-form overrides. The type \<open>'f pyval\<close> is
  that universe. Floating-point numbers are kept abstract: \<open>'f\<close> is the host's float type
  and every operation on it is a field of the host record below. Strings are lists of
  Isabelle characters, read as code points below 256.
\<close>

datatype 'f pyval =
    PNone
  | PBool bool
  | PInt int
  | PFloat 'f
  | PStr string
  | PList "'f pyval list"
  | PDict "(string \<times> 'f pyval) list"

text \<open>Every \<^verbatim>\<open>raise\<close> of the source, and every exception of a builtin it calls, is a value.\<close>

datatype error =
    GrError string        \<comment> \<open>\<^verbatim>\<open>gr.Error\<close>, the user-facing validation error, with its message\<close>
  | TypeError
  | ValueError
  | KeyError string
  | AttributeError
  | AssertionError
  | OverflowError
  | UnicodeDecodeError
  | ExternalError string  \<comment> \<open>an exception raised by \<^verbatim>\<open>RLHFArguments\<close>, with \<^verbatim>\<open>str(e)\<close>\<close>

text \<open>The attributes of the validated arguments object that the launcher reads.\<close>

record sft_args =
  output_dir :: string
  logging_dir :: string
  model :: string

text \<open>
  A Python \<^verbatim>\<open>dict\<close> with string keys keeps insertion order, and the command builder
  iterates over it: an association list with one entry per key.
\<close>

type_synonym 'f pydict = "(string \<times> 'f pyval) list"

definition dict_get :: "('k \<times> 'v) list \<Rightarrow> 'k \<Rightarrow> 'v option" where
  "dict_get d k = map_of d k"

definition dict_has :: "('k \<times> 'v) list \<Rightarrow> 'k \<Rightarrow> bool" where
  "dict_has d k = (k \<in> set (map fst d))"

fun dict_set :: "('k \<times> 'v) list \<Rightarrow> 'k \<Rightarrow> 'v \<Rightarrow> ('k \<times> 'v) list" where
  "dict_set [] k v = [(k, v)]"
| "dict_set (p # ps) k v = (if fst p = k then (k, v) # ps else p # dict_set ps k v)"

definition dict_del :: "('k \<times> 'v) list \<Rightarrow> 'k \<Rightarrow> ('k \<times> 'v) list" where
  "dict_del d k = filter (\<lambda>p. fst p \<noteq> k) d"

definition dict_pop :: "(string \<times> 'v) list \<Rightarrow> string \<Rightarrow> error + ('v \<times> (string \<times> 'v) list)" where
  "dict_pop d k = (case dict_get d k of None \<Rightarrow> Inl (KeyError k) | Some v \<Rightarrow> Inr (v, dict_del d k))"

definition dict_item :: "(string \<times> 'v) list \<Rightarrow> string \<Rightarrow> error + 'v" where
  "dict_item d k = (case dict_get d k of None \<Rightarrow> Inl (KeyError k) | Some v \<Rightarrow> Inr v)"

section \<open>The host: collaborators and constants that are not in this file\<close>

text \<open>
  \<^verbatim>\<open>LLMTrain\<close> inherits from \<^verbatim>\<open>BaseUI\<close> and calls \<^verbatim>\<open>RLHFArguments\<close>, \<^verbatim>\<open>json\<close>,
  \<^verbatim>\<open>os.path\<close> and the accelerator probes. None of them is defined in the file; each is
  a field of the host record, so that every theorem holds for whatever they are.
  The three patterns are given as the predicate "\<^verbatim>\<open>re.fullmatch(pattern, s)\<close> succeeds".
\<close>

record 'f host =
  int_regex :: "string \<Rightarrow> bool"
  float_regex :: "string \<Rightarrow> bool"
  bool_regex :: "string \<Rightarrow> bool"
  ui_quote :: string                   \<comment> \<open>\<^verbatim>\<open>cls.quote\<close>\<close>
  ui_group :: string                   \<comment> \<open>\<^verbatim>\<open>cls.group\<close>\<close>
  dataset_alert :: string              \<comment> \<open>\<^verbatim>\<open>cls.locale('dataset_alert', cls.lang)['value']\<close>\<close>
  default_args :: "string \<Rightarrow> 'f pyval option"
  element_is_list :: "string \<Rightarrow> bool"  \<comment> \<open>\<^verbatim>\<open>getattr(cls.element(key), 'is_list', False)\<close>\<close>
  py_float :: "string \<Rightarrow> 'f option"    \<comment> \<open>\<^verbatim>\<open>float(s)\<close>; \<open>None\<close> is \<^verbatim>\<open>ValueError\<close>\<close>
  float_eq :: "'f \<Rightarrow> 'f \<Rightarrow> bool"
  float_eq_int :: "'f \<Rightarrow> int \<Rightarrow> bool"
  float_nonzero :: "'f \<Rightarrow> bool"
  float_trunc :: "'f \<Rightarrow> int option"    \<comment> \<open>\<^verbatim>\<open>int(f)\<close>; \<open>None\<close> for an infinity or a NaN\<close>
  float_is_nan :: "'f \<Rightarrow> bool"
  repr_of :: "'f pyval \<Rightarrow> string"      \<comment> \<open>\<^verbatim>\<open>str\<close> of a float, a list or a dict\<close>
  json_loads :: "string \<Rightarrow> 'f pyval option"  \<comment> \<open>\<open>None\<close> is \<^verbatim>\<open>JSONDecodeError\<close>\<close>
  path_exists :: "string \<Rightarrow> bool"
  fd_exists :: "int \<Rightarrow> bool option"   \<comment> \<open>\<^verbatim>\<open>os.path.exists(fd)\<close>; \<open>None\<close> is \<^verbatim>\<open>OverflowError\<close>\<close>
  path_join :: "string \<Rightarrow> string \<Rightarrow> string"
  rlhf_arguments :: "'f pydict \<Rightarrow> string + sft_args"
  is_torch_npu_available :: bool
  is_torch_cuda_available :: bool
  platform_win32 :: bool               \<comment> \<open>\<^verbatim>\<open>sys.platform == 'win32'\<close>\<close>

section \<open>Builtins of Python that the launcher uses\<close>

definition is_space :: "char \<Rightarrow> bool" where
  "is_space c = ((of_char c :: nat) \<in> {9, 10, 11, 12, 13, 28, 29, 30, 31, 32, 133, 160})"

definition py_strip :: "string \<Rightarrow> string" where
  "py_strip s = rev (dropWhile is_space (rev (dropWhile is_space s)))"

text \<open>\<^verbatim>\<open>s.split(sep)\<close> for a one-character separator: every occurrence cuts.\<close>

fun py_split :: "char \<Rightarrow> string \<Rightarrow> string list" where
  "py_split sep [] = [[]]"
| "py_split sep (c # cs) =
     (if c = sep then [] # py_split sep cs
      else (case py_split sep cs of [] \<Rightarrow> [[c]] | w # ws \<Rightarrow> (c # w) # ws))"

fun py_join :: "string \<Rightarrow> string list \<Rightarrow> string" where
  "py_join sep [] = []"
| "py_join sep [x] = x"
| "py_join sep (x # y # ys) = x @ sep @ py_join sep (y # ys)"

definition lower_char :: "char \<Rightarrow> char" where
  "lower_char c =
     (let n = (of_char c :: nat)
      in if (65 \<le> n \<and> n \<le> 90) \<or> (192 \<le> n \<and> n \<le> 222 \<and> n \<noteq> 215)
         then char_of (n + 32) else c)"

definition py_lower :: "string \<Rightarrow> string" where
  "py_lower s = map lower_char s"

text \<open>\<^verbatim>\<open>sub in s\<close> on strings.\<close>

fun py_contains :: "string \<Rightarrow> string \<Rightarrow> bool" where
  "py_contains sub [] = (sub = [])"
| "py_contains sub (c # cs) = (prefix sub (c # cs) \<or> py_contains sub cs)"

definition is_digit :: "char \<Rightarrow> bool" where
  "is_digit c = (48 \<le> (of_char c :: nat) \<and> (of_char c :: nat) \<le> 57)"

text \<open>
  \<^verbatim>\<open>int(s)\<close> on a string: surrounding whitespace is dropped, one sign is allowed, and the
  digits may be grouped by single underscores. Anything else is \<^verbatim>\<open>ValueError\<close> (\<open>None\<close>).
  The interpreter's limit on the length of a decimal string is taken to be switched off.
\<close>

fun int_body :: "bool \<Rightarrow> nat \<Rightarrow> string \<Rightarrow> nat option" where
  "int_body prev acc [] = (if prev then Some acc else None)"
| "int_body prev acc (c # cs) =
     (if is_digit c then int_body True (acc * 10 + (of_char c - 48)) cs
      else if c = CHR ''_'' \<and> prev then int_body False acc cs
      else None)"

definition py_int :: "string \<Rightarrow> int option" where
  "py_int s =
     (case py_strip s of
        [] \<Rightarrow> None
      | c # cs \<Rightarrow>
          if c = CHR ''+'' then map_option int (int_body False 0 cs)
          else if c = CHR ''-'' then map_option (\<lambda>n. - int n) (int_body False 0 cs)
          else map_option int (int_body False 0 (c # cs)))"

fun nat_str :: "nat \<Rightarrow> string" where
  "nat_str n = (if n < 10 then [char_of (48 + n)] else nat_str (n div 10) @ [char_of (48 + n mod 10)])"

definition int_str :: "int \<Rightarrow> string" where
  "int_str i = (if i < 0 then CHR ''-'' # nat_str (nat (- i)) else nat_str (nat i))"

definition truthy :: "'f host \<Rightarrow> 'f pyval \<Rightarrow> bool" where
  "truthy h v =
     (case v of
        PNone \<Rightarrow> False
      | PBool b \<Rightarrow> b
      | PInt i \<Rightarrow> i \<noteq> 0
      | PFloat f \<Rightarrow> float_nonzero h f
      | PStr s \<Rightarrow> s \<noteq> []
      | PList xs \<Rightarrow> xs \<noteq> []
      | PDict kvs \<Rightarrow> kvs \<noteq> [])"

definition bool_int :: "bool \<Rightarrow> int" where
  "bool_int b = (if b then 1 else 0)"

text \<open>
  \<^verbatim>\<open>a == b\<close>. Booleans are integers, integers and floats compare by value, two lists are
  equal when they are so element by element, two dicts when they have the same keys with
  equal values; values of different kinds are unequal.
\<close>

fun py_eq :: "'f host \<Rightarrow> 'f pyval \<Rightarrow> 'f pyval \<Rightarrow> bool"
  and py_eq_list :: "'f host \<Rightarrow> 'f pyval list \<Rightarrow> 'f pyval list \<Rightarrow> bool"
  and py_eq_items :: "'f host \<Rightarrow> (string \<times> 'f pyval) list \<Rightarrow> (string \<times> 'f pyval) list \<Rightarrow> bool"
where
  "py_eq h PNone b = (b = PNone)"
| "py_eq h (PBool x) b =
     (case b of PBool y \<Rightarrow> x = y | PInt j \<Rightarrow> bool_int x = j
      | PFloat g \<Rightarrow> float_eq_int h g (bool_int x) | _ \<Rightarrow> False)"
| "py_eq h (PInt i) b =
     (case b of PBool y \<Rightarrow> i = bool_int y | PInt j \<Rightarrow> i = j
      | PFloat g \<Rightarrow> float_eq_int h g i | _ \<Rightarrow> False)"
| "py_eq h (PFloat f) b =
     (case b of PBool y \<Rightarrow> float_eq_int h f (bool_int y) | PInt j \<Rightarrow> float_eq_int h f j
      | PFloat g \<Rightarrow> float_eq h f g | _ \<Rightarrow> False)"
| "py_eq h (PStr s) b = (b = PStr s)"
| "py_eq h (PList xs) b = (case b of PList ys \<Rightarrow> py_eq_list h xs ys | _ \<Rightarrow> False)"
| "py_eq h (PDict xs) b =
     (case b of PDict ys \<Rightarrow> length xs = length ys \<and> py_eq_items h xs ys | _ \<Rightarrow> False)"
| "py_eq_list h [] ys = (ys = [])"
| "py_eq_list h (x # xs) ys =
     (case ys of [] \<Rightarrow> False | y # ys' \<Rightarrow> py_eq h x y \<and> py_eq_list h xs ys')"
| "py_eq_items h [] ys = True"
| "py_eq_items h ((k, v) # xs) ys =
     ((case map_of ys k of None \<Rightarrow> False | Some w \<Rightarrow> py_eq h v w) \<and> py_eq_items h xs ys)"

text \<open>\<^verbatim>\<open>str(v)\<close>, as the f-strings of the command builder apply it.\<close>

definition py_str :: "'f host \<Rightarrow> 'f pyval \<Rightarrow> string" where
  "py_str h v =
     (case v of
        PNone \<Rightarrow> ''None''
      | PBool b \<Rightarrow> (if b then ''True'' else ''False'')
      | PInt i \<Rightarrow> int_str i
      | PStr s \<Rightarrow> s
      | _ \<Rightarrow> repr_of h v)"

text \<open>\<^verbatim>\<open>int(v)\<close> on any value.\<close>

definition py_int_of :: "'f host \<Rightarrow> 'f pyval \<Rightarrow> error + int" where
  "py_int_of h v =
     (case v of
        PInt i \<Rightarrow> Inr i
      | PBool b \<Rightarrow> Inr (bool_int b)
      | PFloat f \<Rightarrow>
          (case float_trunc h f of
             None \<Rightarrow> Inl (if float_is_nan h f then ValueError else OverflowError)
           | Some i \<Rightarrow> Inr i)
      | PStr s \<Rightarrow> (case py_int s of None \<Rightarrow> Inl ValueError | Some i \<Rightarrow> Inr i)
      | _ \<Rightarrow> Inl TypeError)"

text \<open>
  Iterating a value: a list gives its elements, a string its characters, a dict its
  keys; nothing else is iterable (\<open>None\<close> is \<^verbatim>\<open>TypeError\<close>).
\<close>

definition py_iter :: "'f pyval \<Rightarrow> 'f pyval list option" where
  "py_iter v =
     (case v of
        PList xs \<Rightarrow> Some xs
      | PStr s \<Rightarrow> Some (map (\<lambda>c. PStr [c]) s)
      | PDict kvs \<Rightarrow> Some (map (\<lambda>p. PStr (fst p)) kvs)
      | _ \<Rightarrow> None)"

text \<open>\<^verbatim>\<open>sep.join(xs)\<close>: every element must be a string, else \<^verbatim>\<open>TypeError\<close> (\<open>None\<close>).\<close>

fun strs_of :: "'f pyval list \<Rightarrow> string list option" where
  "strs_of [] = Some []"
| "strs_of (x # xs) =
     (case x of
        PStr s \<Rightarrow> (case strs_of xs of None \<Rightarrow> None | Some ss \<Rightarrow> Some (s # ss))
      | _ \<Rightarrow> None)"

definition join_vals :: "string \<Rightarrow> 'f pyval list \<Rightarrow> error + string" where
  "join_vals sep xs = (case strs_of xs of None \<Rightarrow> Inl TypeError | Some ss \<Rightarrow> Inr (py_join sep ss))"

section \<open>The argument resolver: \<^verbatim>\<open>LLMTrain.train\<close>\<close>

subsection \<open>Type coercion and the loop over the form values (lines 291 to 311)\<close>

text \<open>
  Lines 293 to 298: a string that fully matches the integer pattern goes through
  \<^verbatim>\<open>int\<close>, else one that matches the float pattern through \<^verbatim>\<open>float\<close>, else one that
  matches the boolean pattern becomes \<^verbatim>\<open>value.lower() == 'true'\<close>. Values that are not
  strings are left alone.
\<close>

definition coerce :: "'f host \<Rightarrow> 'f pyval \<Rightarrow> error + 'f pyval" where
  "coerce h v =
     (case v of
        PStr s \<Rightarrow>
          if int_regex h s then
            (case py_int s of None \<Rightarrow> Inl ValueError | Some i \<Rightarrow> Inr (PInt i))
          else if float_regex h s then
            (case py_float h s of None \<Rightarrow> Inl ValueError | Some f \<Rightarrow> Inr (PFloat f))
          else if bool_regex h s then
            Inr (PBool (py_lower s = ''true''))
          else Inr v
      | _ \<Rightarrow> Inr v)"

definition ignore_elements :: "string list" where
  "ignore_elements = [''logging_dir'', ''more_params'', ''train_stage'', ''envs'']"

text \<open>The local variables that the loop updates.\<close>

record 'f locals =
  kwargs :: "'f pydict"
  kwargs_is_list :: "(string \<times> bool) list"
  other_kwargs :: "'f pydict"
  more_params :: "'f pyval"
  more_params_cmd :: string
  train_stage :: "'f pyval"

definition init_locals :: "'f host \<Rightarrow> 'f locals" where
  "init_locals h =
     \<lparr> kwargs = [], kwargs_is_list = [], other_kwargs = [], more_params = PDict [],
       more_params_cmd = [],
       train_stage = PStr (if ui_group h = ''llm_grpo'' then ''rlhf'' else ''sft'') \<rparr>"

text \<open>Lines 299 to 303: the value goes to \<^verbatim>\<open>kwargs\<close> or to \<^verbatim>\<open>other_kwargs\<close>.\<close>

definition bucket :: "'f host \<Rightarrow> 'f locals \<Rightarrow> string \<Rightarrow> 'f pyval \<Rightarrow> error + 'f locals" where
  "bucket h st key val =
     (let compare_value = (case default_args h key of None \<Rightarrow> PNone | Some d \<Rightarrow> d)
      in if key \<notin> set ignore_elements \<and> default_args h key \<noteq> None
            \<and> \<not> py_eq h compare_value val \<and> truthy h val
         then (case val of
                 PList xs \<Rightarrow>
                   (case join_vals '' '' xs of
                      Inl e \<Rightarrow> Inl e
                    | Inr s \<Rightarrow>
                        Inr (st\<lparr> kwargs := dict_set (kwargs st) key (PStr s),
                                kwargs_is_list := dict_set (kwargs_is_list st) key True \<rparr>))
               | _ \<Rightarrow>
                   Inr (st\<lparr> kwargs := dict_set (kwargs st) key val,
                           kwargs_is_list :=
                             dict_set (kwargs_is_list st) key (element_is_list h key) \<rparr>))
         else Inr (st\<lparr> other_kwargs := dict_set (other_kwargs st) key val \<rparr>))"

text \<open>
  Lines 304 to 308. The clause \<^verbatim>\<open>except (JSONDecodeError or TypeError)\<close> catches
  \<^verbatim>\<open>JSONDecodeError\<close> only: the \<^verbatim>\<open>TypeError\<close> that \<^verbatim>\<open>json.loads\<close> raises for a value
  that is not a string leaves the function.
\<close>

definition parse_more_params :: "'f host \<Rightarrow> 'f locals \<Rightarrow> string \<Rightarrow> 'f pyval \<Rightarrow> error + 'f locals" where
  "parse_more_params h st key val =
     (if key = ''more_params'' \<and> truthy h val
      then (case val of
              PStr s \<Rightarrow>
                (case json_loads h s of
                   None \<Rightarrow> Inr (st\<lparr> more_params_cmd := s \<rparr>)
                 | Some j \<Rightarrow> Inr (st\<lparr> more_params := j \<rparr>))
            | _ \<Rightarrow> Inl TypeError)
      else Inr st)"

definition train_step :: "'f host \<Rightarrow> 'f locals \<Rightarrow> string \<times> 'f pyval \<Rightarrow> error + 'f locals" where
  "train_step h st kv =
     (case coerce h (snd kv) of
        Inl e \<Rightarrow> Inl e
      | Inr val \<Rightarrow>
          (case bucket h st (fst kv) val of
             Inl e \<Rightarrow> Inl e
           | Inr st1 \<Rightarrow>
               (case parse_more_params h st1 (fst kv) val of
                  Inl e \<Rightarrow> Inl e
                | Inr st2 \<Rightarrow>
                    Inr (if fst kv = ''train_stage'' then st2\<lparr> train_stage := val \<rparr> else st2))))"

fun train_loop :: "'f host \<Rightarrow> 'f locals \<Rightarrow> (string \<times> 'f pyval) list \<Rightarrow> error + 'f locals" where
  "train_loop h st [] = Inr st"
| "train_loop h st (kv # kvs) =
     (case train_step h st kv of Inl e \<Rightarrow> Inl e | Inr st' \<Rightarrow> train_loop h st' kvs)"

subsection \<open>Merging the free-form overrides and checking the dataset (lines 313 to 315)\<close>

text \<open>
  \<^verbatim>\<open>kwargs.update(more_params)\<close>. A dict is merged key by key. Any other iterable is read
  as a sequence of pairs; a pair whose key is not a string cannot be a keyword later, which
  the flag \<open>nonstr_keys\<close> remembers (the pair itself is never read again).
\<close>

record 'f merged =
  merged_kwargs :: "'f pydict"
  nonstr_keys :: bool

definition hashable :: "'f pyval \<Rightarrow> bool" where
  "hashable v = (case v of PList _ \<Rightarrow> False | PDict _ \<Rightarrow> False | _ \<Rightarrow> True)"

fun update_pairs :: "'f merged \<Rightarrow> 'f pyval list \<Rightarrow> error + 'f merged" where
  "update_pairs m [] = Inr m"
| "update_pairs m (e # es) =
     (case py_iter e of
        None \<Rightarrow> Inl TypeError
      | Some kv \<Rightarrow>
          (case kv of
             [k, v] \<Rightarrow>
               if \<not> hashable k then Inl TypeError
               else (case k of
                       PStr s \<Rightarrow> update_pairs (m\<lparr> merged_kwargs := dict_set (merged_kwargs m) s v \<rparr>) es
                     | _ \<Rightarrow> update_pairs (m\<lparr> nonstr_keys := True \<rparr>) es)
           | _ \<Rightarrow> Inl ValueError))"

definition dict_update :: "'f pydict \<Rightarrow> 'f pyval \<Rightarrow> error + 'f merged" where
  "dict_update d v =
     (case v of
        PDict kvs \<Rightarrow>
          Inr \<lparr> merged_kwargs = fold (\<lambda>p acc. dict_set acc (fst p) (snd p)) kvs d,
                nonstr_keys = False \<rparr>
      | _ \<Rightarrow>
          (case py_iter v of
             None \<Rightarrow> Inl TypeError
           | Some es \<Rightarrow> update_pairs \<lparr> merged_kwargs = d, nonstr_keys = False \<rparr> es))"

definition check_dataset :: "'f host \<Rightarrow> 'f pydict \<Rightarrow> error + unit" where
  "check_dataset h kw =
     (if \<not> dict_has kw ''dataset'' \<and> \<not> dict_has kw ''custom_train_dataset_path''
      then Inl (GrError (dataset_alert h)) else Inr ())"

subsection \<open>Checkpoint detection and the deepspeed flag (lines 317 to 323)\<close>

text \<open>
  \<^verbatim>\<open>os.path.exists\<close> takes a path or a file descriptor; for any other value, \<^verbatim>\<open>None\<close>
  included, \<^verbatim>\<open>os.stat\<close> raises \<^verbatim>\<open>TypeError\<close>, which \<^verbatim>\<open>exists\<close> does not catch.
\<close>

definition fd_check :: "'f host \<Rightarrow> int \<Rightarrow> error + bool" where
  "fd_check h n = (case fd_exists h n of None \<Rightarrow> Inl OverflowError | Some b \<Rightarrow> Inr b)"

definition os_path_exists :: "'f host \<Rightarrow> 'f pyval \<Rightarrow> error + bool" where
  "os_path_exists h v =
     (case v of
        PStr s \<Rightarrow> Inr (path_exists h s)
      | PInt n \<Rightarrow> fd_check h n
      | PBool b \<Rightarrow> fd_check h (bool_int b)
      | _ \<Rightarrow> Inl TypeError)"

definition kwargs_model :: "'f pydict \<Rightarrow> 'f pyval" where
  "kwargs_model kw = (case dict_get kw ''model'' of None \<Rightarrow> PNone | Some v \<Rightarrow> v)"

definition detect_checkpoint :: "'f host \<Rightarrow> 'f pydict \<Rightarrow> error + 'f pydict" where
  "detect_checkpoint h kw =
     (case os_path_exists h (kwargs_model kw) of
        Inl e \<Rightarrow> Inl e
      | Inr found \<Rightarrow>
          if \<not> found then Inr kw
          else (case kwargs_model kw of
                  PStr s \<Rightarrow>
                    if path_exists h (path_join h s ''args.json'')
                    then (case dict_pop kw ''model'' of
                            Inl e \<Rightarrow> Inl e
                          | Inr (v, kw') \<Rightarrow> Inr (dict_set kw' ''resume_from_checkpoint'' v))
                    else Inr kw
                | _ \<Rightarrow> Inl TypeError))"

definition pop_deepspeed :: "'f host \<Rightarrow> 'f pydict \<Rightarrow> string \<Rightarrow> 'f pydict \<times> string" where
  "pop_deepspeed h kw sfx =
     (case dict_get kw ''deepspeed'' of
        None \<Rightarrow> (kw, sfx)
      | Some v \<Rightarrow>
          if truthy h v
          then (dict_del kw ''deepspeed'', sfx @ '' --deepspeed '' @ py_str h v @ '' '')
          else (kw, sfx))"

subsection \<open>The validation constructor and its retry (lines 324 to 339)\<close>

definition call_kwargs :: "(string \<times> bool) list \<Rightarrow> 'f pydict \<Rightarrow> 'f pydict" where
  "call_kwargs is_list kw =
     map (\<lambda>p. (fst p,
               (case snd p of
                  PStr s \<Rightarrow>
                    if dict_get is_list (fst p) = Some True
                    then PList (map PStr (py_split CHR '' '' s)) else snd p
                | _ \<Rightarrow> snd p))) kw"

definition construct_args ::
  "'f host \<Rightarrow> bool \<Rightarrow> (string \<times> bool) list \<Rightarrow> 'f pydict \<Rightarrow> error + (sft_args \<times> 'f pydict)" where
  "construct_args h nonstr is_list kw =
     (if nonstr then Inl TypeError
      else (case rlhf_arguments h (call_kwargs is_list kw) of
              Inr a \<Rightarrow> Inr (a, kw)
            | Inl msg \<Rightarrow>
                if py_contains ''Please set --model'' msg
                then (case dict_pop kw ''resume_from_checkpoint'' of
                        Inl e \<Rightarrow> Inl e
                      | Inr (v, kw') \<Rightarrow>
                          (let kw2 = dict_set kw' ''model'' v
                           in case rlhf_arguments h (call_kwargs is_list kw2) of
                                Inl msg2 \<Rightarrow> Inl (ExternalError msg2)
                              | Inr a \<Rightarrow> Inr (a, kw2)))
                else Inl (ExternalError msg)))"

subsection \<open>The command builder (lines 340 to 390)\<close>

definition flag_text :: "'f host \<Rightarrow> string \<Rightarrow> string \<Rightarrow> string" where
  "flag_text h e body = ''--'' @ e @ '' '' @ ui_quote h @ body @ ui_quote h @ '' ''"

definition sep :: "'f host \<Rightarrow> string" where
  "sep h = ui_quote h @ '' '' @ ui_quote h"

definition all_args :: "string \<Rightarrow> string list" where
  "all_args s = filter (\<lambda>arg. py_strip arg \<noteq> []) (py_split CHR '' '' s)"

definition serialize_item :: "'f host \<Rightarrow> (string \<times> bool) list \<Rightarrow> string \<times> 'f pyval \<Rightarrow> error + string" where
  "serialize_item h is_list kv =
     (case snd kv of
        PList xs \<Rightarrow>
          (case join_vals (sep h) xs of
             Inl err \<Rightarrow> Inl err
           | Inr body \<Rightarrow> Inr (flag_text h (fst kv) body))
      | PStr s \<Rightarrow>
          if dict_get is_list (fst kv) = Some True
          then Inr (flag_text h (fst kv) (py_join (sep h) (all_args s)))
          else Inr (flag_text h (fst kv) s)
      | v \<Rightarrow>
          if dict_get is_list (fst kv) = Some True then Inl AttributeError
          else Inr (flag_text h (fst kv) (py_str h v)))"

fun serialize_kwargs :: "'f host \<Rightarrow> (string \<times> bool) list \<Rightarrow> string \<Rightarrow> 'f pydict \<Rightarrow> error + string" where
  "serialize_kwargs h is_list params [] = Inr params"
| "serialize_kwargs h is_list params (kv # kvs) =
     (case serialize_item h is_list kv of
        Inl e \<Rightarrow> Inl e
      | Inr s \<Rightarrow> serialize_kwargs h is_list (params @ s) kvs)"

definition build_params ::
  "'f host \<Rightarrow> (string \<times> bool) list \<Rightarrow> 'f pydict \<Rightarrow> string \<Rightarrow> sft_args \<Rightarrow> error + string" where
  "build_params h is_list kw sfx a =
     (case serialize_kwargs h is_list
             (if ui_group h = ''llm_grpo'' \<and> \<not> platform_win32 h
              then ''--rlhf_type '' @ ui_quote h @ ''grpo'' @ ui_quote h @ '' '' else [])
             kw of
        Inl e \<Rightarrow> Inl e
      | Inr params \<Rightarrow>
          Inr (params @ sfx @ '' '' @ ''--add_version False --output_dir '' @ output_dir a
               @ '' --logging_dir '' @ logging_dir a @ '' --ignore_args_error True''))"

text \<open>Lines 362 to 364: the distributed-launch prefix.\<close>

definition ddp_param :: "'f host \<Rightarrow> 'f pydict \<Rightarrow> error + string" where
  "ddp_param h other =
     (case dict_item other ''use_ddp'' of
        Inl e \<Rightarrow> Inl e
      | Inr use_ddp \<Rightarrow>
          if truthy h use_ddp
          then (case dict_item other ''ddp_num'' of
                  Inl e \<Rightarrow> Inl e
                | Inr n \<Rightarrow>
                    (case py_int_of h n of
                       Inl e \<Rightarrow> Inl e
                     | Inr i \<Rightarrow>
                         if i > 0 then Inr (''NPROC_PER_NODE='' @ int_str i)
                         else Inl AssertionError))
          else Inr [])"

text \<open>Line 365: \<^verbatim>\<open>assert (len(devices) == 1 or 'cpu' not in devices)\<close>.\<close>

definition check_devices :: "'f pyval list \<Rightarrow> error + unit" where
  "check_devices devices =
     (if length devices = 1 \<or> PStr ''cpu'' \<notin> set devices then Inr () else Inl AssertionError)"

text \<open>Lines 367 to 374: the device-visibility assignment.\<close>

definition cuda_param :: "'f host \<Rightarrow> string \<Rightarrow> string" where
  "cuda_param h gpus =
     (if gpus \<noteq> ''cpu''
      then (if is_torch_npu_available h then ''ASCEND_RT_VISIBLE_DEVICES='' @ gpus
            else if is_torch_cuda_available h then ''CUDA_VISIBLE_DEVICES='' @ gpus
            else [])
      else [])"

record 'f launch =
  devices :: "'f pyval list"
  cuda :: string
  ddp :: string
  envs :: string

definition launch_env :: "'f host \<Rightarrow> 'f pydict \<Rightarrow> error + 'f launch" where
  "launch_env h other =
     (case dict_item other ''gpu_id'' of
        Inl e \<Rightarrow> Inl e
      | Inr gpu_id \<Rightarrow>
          (case dict_item other ''envs'' of
             Inl e \<Rightarrow> Inl e
           | Inr envs0 \<Rightarrow>
               (case (if truthy h envs0 then envs0 else PStr []) of
                  PStr envs1 \<Rightarrow>
                    (case py_iter gpu_id of
                       None \<Rightarrow> Inl TypeError
                     | Some ds \<Rightarrow>
                         (case ddp_param h other of
                            Inl e \<Rightarrow> Inl e
                          | Inr ddp_text \<Rightarrow>
                              (case check_devices (filter (truthy h) ds) of
                                 Inl e \<Rightarrow> Inl e
                               | Inr _ \<Rightarrow>
                                   (case join_vals '','' (filter (truthy h) ds) of
                                      Inl e \<Rightarrow> Inl e
                                    | Inr gpus \<Rightarrow>
                                        Inr \<lparr> devices = filter (truthy h) ds,
                                              cuda = cuda_param h gpus,
                                              ddp = ddp_text,
                                              envs = py_strip envs1 \<rparr>))))
                | _ \<Rightarrow> Inl AttributeError)))"

text \<open>Lines 376 to 390: the two platform-specific command lines.\<close>

definition set_clause :: "string \<Rightarrow> string" where
  "set_clause x = (if x \<noteq> [] then ''set '' @ x @ '' && '' else x)"

definition win_envs :: "string \<Rightarrow> string" where
  "win_envs e =
     (if e \<noteq> []
      then concat (map (\<lambda>env. ''set '' @ env @ '' && '')
                    (map py_strip (filter (\<lambda>env. py_strip env \<noteq> []) (py_split CHR '' '' e))))
      else e)"

definition build_command ::
  "'f host \<Rightarrow> 'f launch \<Rightarrow> 'f pyval \<Rightarrow> string \<Rightarrow> sft_args \<Rightarrow> string" where
  "build_command h l cmd params a =
     (let log_file = path_join h (logging_dir a) ''run.log''
      in if platform_win32 h
         then set_clause (cuda l) @ set_clause (ddp l) @ win_envs (envs l)
              @ ''start /b swift sft '' @ params @ '' > '' @ log_file @ '' 2>&1''
         else cuda l @ '' '' @ ddp l @ '' '' @ envs l @ '' nohup swift '' @ py_str h cmd
              @ '' '' @ params @ '' > '' @ log_file @ '' 2>&1 &'')"

subsection \<open>The cache record (lines 392 to 397) and the whole of \<^verbatim>\<open>train\<close>\<close>

definition recorded_keys :: "string list" where
  "recorded_keys = [''more_params'', ''train_stage'', ''use_ddp'', ''ddp_num'', ''gpu_id'', ''envs'']"

definition cache_record :: "'f host \<Rightarrow> (string \<times> 'f pyval) list \<Rightarrow> 'f pydict" where
  "cache_record h pairs =
     fold (\<lambda>kv acc.
            if default_args h (fst kv) \<noteq> None \<or> fst kv \<in> set recorded_keys
            then dict_set acc (fst kv) (if truthy h (snd kv) then snd kv else PNone)
            else acc) pairs []"

text \<open>
  What \<^verbatim>\<open>train\<close> returns, and the one effect it has: the call
  \<^verbatim>\<open>cls.save_cache(model, record)\<close>, kept as the pair it is called with. The call is to
  \<^verbatim>\<open>BaseUI\<close> and is taken to return.
\<close>

record 'f train_result =
  run_command :: string
  args :: sft_args
  others :: "'f pydict"
  saved_cache :: "('f pyval \<times> 'f pydict) option"

text \<open>Lines 313 to 339: from the loop's variables to the validated arguments.\<close>

record 'f resolved =
  final_kwargs :: "'f pydict"
  suffix_cmd :: string
  validated :: sft_args
  model_value :: "'f pyval"

definition resolve :: "'f host \<Rightarrow> 'f locals \<Rightarrow> error + 'f resolved" where
  "resolve h st =
     (case dict_update (kwargs st) (more_params st) of
        Inl e \<Rightarrow> Inl e
      | Inr m \<Rightarrow>
          (case check_dataset h (merged_kwargs m) of
             Inl e \<Rightarrow> Inl e
           | Inr _ \<Rightarrow>
               (case detect_checkpoint h (merged_kwargs m) of
                  Inl e \<Rightarrow> Inl e
                | Inr kw1 \<Rightarrow>
                    (case construct_args h (nonstr_keys m) (kwargs_is_list st)
                            (fst (pop_deepspeed h kw1 (more_params_cmd st))) of
                       Inl e \<Rightarrow> Inl e
                     | Inr (a, kw3) \<Rightarrow>
                         Inr \<lparr> final_kwargs = kw3,
                               suffix_cmd = snd (pop_deepspeed h kw1 (more_params_cmd st)),
                               validated = a,
                               model_value = kwargs_model (merged_kwargs m) \<rparr>))))"

text \<open>Lines 340 to 398: from the validated arguments to the command.\<close>

definition assemble ::
  "'f host \<Rightarrow> (string \<times> 'f pyval) list \<Rightarrow> 'f locals \<Rightarrow> 'f resolved \<Rightarrow> error + 'f train_result" where
  "assemble h pairs st r =
     (case build_params h (kwargs_is_list st) (final_kwargs r) (suffix_cmd r) (validated r) of
        Inl e \<Rightarrow> Inl e
      | Inr params \<Rightarrow>
          (case launch_env h (other_kwargs st) of
             Inl e \<Rightarrow> Inl e
           | Inr l \<Rightarrow>
               Inr \<lparr> run_command = build_command h l (train_stage st) params (validated r),
                     args = validated r,
                     others = other_kwargs st,
                     saved_cache =
                       (if truthy h (model_value r)
                        then Some (model_value r, cache_record h pairs) else None) \<rparr>))"

definition train :: "'f host \<Rightarrow> (string \<times> 'f pyval) list \<Rightarrow> error + 'f train_result" where
  "train h pairs =
     (case train_loop h (init_locals h) pairs of
        Inl e \<Rightarrow> Inl e
      | Inr st \<Rightarrow>
          (case resolve h st of
             Inl e \<Rightarrow> Inl e
           | Inr r \<Rightarrow> assemble h pairs st r))"

section \<open>The process runners: \<^verbatim>\<open>train_studio\<close> and \<^verbatim>\<open>train_local\<close>\<close>

text \<open>
  \<^verbatim>\<open>iter(process.stdout.readline, b'')\<close> cuts the child's output after every newline and
  keeps the newline in the line; a last line without one is returned as it is.
\<close>

fun read_lines :: "string \<Rightarrow> string \<Rightarrow> string list" where
  "read_lines cur [] = (if cur = [] then [] else [cur])"
| "read_lines cur (c # cs) =
     (if c = CHR 0x0A then (cur @ [c]) # read_lines [] cs else read_lines (cur @ [c]) cs)"

text \<open>\<^verbatim>\<open>collections.deque(maxlen=n).append\<close>: a full buffer drops its oldest line.\<close>

definition deque_append :: "nat \<Rightarrow> 'a list \<Rightarrow> 'a \<Rightarrow> 'a list" where
  "deque_append n xs x =
     (if n = 0 then [] else if length xs = n then tl xs @ [x] else xs @ [x])"

text \<open>
  \<^verbatim>\<open>int(os.environ.get('MAX_LOG_LINES', 50))\<close>, as the buffer's \<^verbatim>\<open>maxlen\<close>: a negative
  length is refused by \<^verbatim>\<open>deque\<close> with \<^verbatim>\<open>ValueError\<close>.
\<close>

definition log_maxlen :: "string option \<Rightarrow> error + nat" where
  "log_maxlen var =
     (case var of
        None \<Rightarrow> Inr 50
      | Some s \<Rightarrow>
          (case py_int s of
             None \<Rightarrow> Inl ValueError
           | Some i \<Rightarrow> if i < 0 then Inl ValueError else Inr (nat i)))"

text \<open>
  What surrounds a run of \<^verbatim>\<open>train_studio\<close>: the environment variable, the bytes the child
  writes, the codec for lines that are not plain ASCII, and \<^verbatim>\<open>Runtime.plot\<close>, whose
  result may change from one line to the next.
\<close>

record 'p studio =
  max_log_lines :: "string option"
  child_output :: string
  decode_other :: "string \<Rightarrow> string option"
  runtime_plot :: "nat \<Rightarrow> string \<Rightarrow> 'p option list"
  sft_plot_len :: nat

definition decode_utf8 :: "'p studio \<Rightarrow> string \<Rightarrow> string option" where
  "decode_utf8 env raw =
     (if list_all (\<lambda>c. (of_char c :: nat) < 128) raw then Some raw else decode_other env raw)"

text \<open>One update is \<^verbatim>\<open>[log text] + plots + [run_command]\<close>.\<close>

type_synonym 'p update = "string \<times> 'p option list \<times> string"

fun stream_updates ::
  "'p studio \<Rightarrow> string \<Rightarrow> nat \<Rightarrow> nat \<Rightarrow> string list \<Rightarrow> string list \<Rightarrow> 'p update list \<times> error option" where
  "stream_updates env cmd n i buf [] = ([], None)"
| "stream_updates env cmd n i buf (raw # rest) =
     (case decode_utf8 env raw of
        None \<Rightarrow> ([], Some UnicodeDecodeError)
      | Some line \<Rightarrow>
          (let buf' = deque_append n buf line;
               r = stream_updates env cmd n (Suc i) buf' rest
           in ((py_join [CHR 0x0A] buf', runtime_plot env (Suc i) cmd, cmd) # fst r, snd r)))"

record 'p studio_run =
  spawned :: "string option"     \<comment> \<open>the command given to \<^verbatim>\<open>Popen\<close>, if any\<close>
  updates :: "'p update list"    \<comment> \<open>what the generator yields, in order\<close>
  raised :: "error option"       \<comment> \<open>the exception that ends it, if any\<close>

definition dry_run_message :: string where
  "dry_run_message =
     ''Current is dryrun mode so you can only view the training cmd, please duplicate this space to ''
     @ ''do training or use with inference.''"

definition train_studio ::
  "'f host \<Rightarrow> 'p studio \<Rightarrow> (string \<times> 'f pyval) list \<Rightarrow> 'p studio_run" where
  "train_studio h env pairs =
     (case train h pairs of
        Inl e \<Rightarrow> \<lparr> spawned = None, updates = [], raised = Some e \<rparr>
      | Inr r \<Rightarrow>
          (case dict_item (others r) ''dry_run'' of
             Inl e \<Rightarrow> \<lparr> spawned = None, updates = [], raised = Some e \<rparr>
           | Inr dry \<Rightarrow>
               if \<not> truthy h dry
               then (case log_maxlen (max_log_lines env) of
                       Inl e \<Rightarrow> \<lparr> spawned = None, updates = [], raised = Some e \<rparr>
                     | Inr n \<Rightarrow>
                         (let out = stream_updates env (run_command r) n 0 []
                                      (read_lines [] (child_output env))
                          in \<lparr> spawned = Some (run_command r), updates = fst out,
                               raised = snd out \<rparr>))
               else \<lparr> spawned = None,
                      updates = [(dry_run_message, replicate (sft_plot_len env) None, run_command r)],
                      raised = None \<rparr>))"

datatype effect = Makedirs string | OsSystem string

text \<open>
  \<^verbatim>\<open>train_local\<close>: the effects on the operating system, then the command and the logging
  directory it returns (the other returned values refresh the page).
\<close>

definition train_local ::
  "'f host \<Rightarrow> (string \<times> 'f pyval) list \<Rightarrow> error + (effect list \<times> string \<times> string)" where
  "train_local h pairs =
     (case train h pairs of
        Inl e \<Rightarrow> Inl e
      | Inr r \<Rightarrow>
          (case dict_item (others r) ''dry_run'' of
             Inl e \<Rightarrow> Inl e
           | Inr dry \<Rightarrow>
               Inr (if \<not> truthy h dry
                    then [Makedirs (logging_dir (args r)), OsSystem (run_command r)] else [],
                    run_command r, logging_dir (args r))))"

section \<open>A sample host\<close>

text \<open>
  The theorems below hold for every host. To run the launcher on concrete submissions, a
  host is fixed here: a POSIX machine with CUDA, floats read as exact decimal fractions,
  and the three patterns as the specification describes them.
\<close>

definition strip_sign :: "string \<Rightarrow> string" where
  "strip_sign s = (case s of [] \<Rightarrow> [] | c # cs \<Rightarrow> if c = CHR ''+'' \<or> c = CHR ''-'' then cs else s)"

text \<open>
  Modelled from the spec: \<^verbatim>\<open>BaseUI.int_regex\<close> is not in the source file; the
  specification calls it "an integer pattern": an optional sign and at least one digit.
\<close>

definition int_pattern :: "string \<Rightarrow> bool" where
  "int_pattern s = (strip_sign s \<noteq> [] \<and> list_all is_digit (strip_sign s))"

text \<open>
  Modelled from the spec: \<^verbatim>\<open>BaseUI.float_regex\<close> is not in the source file; the
  specification calls it "a float pattern": an optional sign, digits, and after an optional
  point at least one digit.
\<close>

definition float_pattern :: "string \<Rightarrow> bool" where
  "float_pattern s =
     (case dropWhile is_digit (strip_sign s) of
        [] \<Rightarrow> strip_sign s \<noteq> []
      | c # cs \<Rightarrow> c = CHR ''.'' \<and> cs \<noteq> [] \<and> list_all is_digit cs)"

text \<open>
  Modelled from the spec: \<^verbatim>\<open>BaseUI.bool_regex\<close> is not in the source file; the
  specification calls it a boolean pattern, "case-insensitive true/false".
\<close>

definition bool_pattern :: "string \<Rightarrow> bool" where
  "bool_pattern s = (py_lower s = ''true'' \<or> py_lower s = ''false'')"

definition digits_val :: "string \<Rightarrow> nat" where
  "digits_val s = foldl (\<lambda>acc c. acc * 10 + (of_char c - 48)) 0 s"

definition decimal :: "string \<Rightarrow> rat option" where
  "decimal s =
     (if float_pattern s
      then (let body = strip_sign s;
                whole = takeWhile is_digit body;
                frac = drop 1 (dropWhile is_digit body);
                m = of_nat (digits_val (whole @ frac)) / 10 ^ length frac
            in Some (if take 1 s = ''-'' then - m else m))
      else None)"

definition posix_join :: "string \<Rightarrow> string \<Rightarrow> string" where
  "posix_join a b =
     (if take 1 b = ''/'' then b
      else if a = [] \<or> last a = CHR ''/'' then a @ b
      else a @ ''/'' @ b)"

definition sample_defaults :: "string \<Rightarrow> rat pyval option" where
  "sample_defaults =
     map_of [(''model'', PNone), (''dataset'', PList []), (''custom_train_dataset_path'', PList []),
             (''deepspeed'', PNone), (''target_modules'', PList [PStr ''all-linear'']),
             (''num_train_epochs'', PInt 3), (''learning_rate'', PFloat (1 / 10000)),
             (''gradient_checkpointing'', PBool True), (''output_dir'', PStr ''output'')]"

text \<open>The constructor of the sample host refuses a missing model, as the retry expects.\<close>

definition sample_arguments :: "rat pydict \<Rightarrow> string + sft_args" where
  "sample_arguments kw =
     (case dict_get kw ''model'' of
        Some (PStr m) \<Rightarrow> Inr \<lparr> output_dir = ''output'', logging_dir = ''output/runs'', model = m \<rparr>
      | Some _ \<Rightarrow> Inl ''model must be a string''
      | None \<Rightarrow> Inl ''Please set --model <model_id_or_path>'')"

definition sample_json :: "string \<Rightarrow> rat pyval option" where
  "sample_json =
     map_of [(''{\"dataset\": \"d\"}'', PDict [(''dataset'', PStr ''d'')]),
             (''{\"model\": \"m2\", \"lr\": 3}'', PDict [(''model'', PStr ''m2''), (''lr'', PInt 3)]),
             (''[1]'', PList [PInt 1])]"

definition sample_host :: "rat host" where
  "sample_host =
     \<lparr> int_regex = int_pattern, float_regex = float_pattern, bool_regex = bool_pattern,
       ui_quote = [CHR 0x27], ui_group = ''llm_train'',
       dataset_alert = ''Please input or select a dataset'',
       default_args = sample_defaults,
       element_is_list = (\<lambda>k. k \<in> set [''dataset'', ''custom_train_dataset_path'', ''target_modules'']),
       py_float = decimal,
       float_eq = (=), float_eq_int = (\<lambda>f i. f = of_int i), float_nonzero = (\<lambda>f. f \<noteq> 0),
       float_trunc = (\<lambda>f. Some (if 0 \<le> f then \<lfloor>f\<rfloor> else \<lceil>f\<rceil>)),
       float_is_nan = (\<lambda>f. False),
       repr_of = (\<lambda>v. ''...''),
       json_loads = sample_json,
       path_exists = (\<lambda>p. p \<in> set [''ckpt'', ''ckpt/args.json'']),
       fd_exists = (\<lambda>n. Some (0 \<le> n \<and> n \<le> 2)),
       path_join = posix_join,
       rlhf_arguments = sample_arguments,
       is_torch_npu_available = False, is_torch_cuda_available = True,
       platform_win32 = False \<rparr>"

definition sample_studio :: "string option \<Rightarrow> string \<Rightarrow> unit studio" where
  "sample_studio var out =
     \<lparr> max_log_lines = var, child_output = out, decode_other = (\<lambda>raw. None),
       runtime_plot = (\<lambda>i cmd. []), sft_plot_len = 0 \<rparr>"

text \<open>A submission that the sample host accepts.\<close>

definition sample_form :: "(string \<times> rat pyval) list" where
  "sample_form =
     [(''model'', PStr ''m''), (''dataset'', PList [PStr ''a'', PStr ''b'']),
      (''num_train_epochs'', PStr ''3''), (''gradient_checkpointing'', PStr ''true''),
      (''gpu_id'', PList [PStr ''0'', PStr ''1'']), (''envs'', PStr []),
      (''use_ddp'', PBool False), (''ddp_num'', PStr ''2''), (''dry_run'', PBool False),
      (''more_params'', PStr []), (''train_stage'', PStr ''sft'')]"

section \<open>The specification's words, as predicates\<close>

text \<open>
  "A field is an explicit override iff: not in the ignore-set, present in the defaults
  map, differs from its default, and is truthy."
\<close>

definition explicit_override :: "'f host \<Rightarrow> string \<Rightarrow> 'f pyval \<Rightarrow> bool" where
  "explicit_override h key val =
     (key \<notin> {''logging_dir'', ''more_params'', ''train_stage'', ''envs''}
      \<and> (case default_args h key of None \<Rightarrow> False | Some d \<Rightarrow> \<not> py_eq h d val)
      \<and> truthy h val)"

text \<open>The same submission without a dataset, and without a model.\<close>

definition no_dataset_form :: "(string \<times> rat pyval) list" where
  "no_dataset_form = filter (\<lambda>kv. fst kv \<noteq> ''dataset'') sample_form"

definition no_model_form :: "(string \<times> rat pyval) list" where
  "no_model_form = filter (\<lambda>kv. fst kv \<noteq> ''model'') sample_form"

text \<open>The submission with the text \<^verbatim>\<open>True\<close> in the free-form overrides field.\<close>

definition true_params_form :: "(string \<times> rat pyval) list" where
  "true_params_form =
     map (\<lambda>kv. if fst kv = ''more_params'' then (fst kv, PStr ''True'') else kv) sample_form"

text \<open>"A user-facing validation error": the exception is a \<^verbatim>\<open>gr.Error\<close>.\<close>

definition user_facing :: "error \<Rightarrow> bool" where
  "user_facing e = (case e of GrError _ \<Rightarrow> True | _ \<Rightarrow> False)"


text \<open>The submission whose model is a checkpoint directory of the sample host.\<close>

definition checkpoint_form :: "(string \<times> rat pyval) list" where
  "checkpoint_form =
     map (\<lambda>kv. if fst kv = ''model'' then (fst kv, PStr ''ckpt'') else kv) sample_form"

text \<open>The submissions that select the devices \<^verbatim>\<open>cpu\<close> and \<^verbatim>\<open>0\<close>, and \<^verbatim>\<open>cpu\<close> alone.\<close>

definition mixed_devices_form :: "(string \<times> rat pyval) list" where
  "mixed_devices_form =
     map (\<lambda>kv. if fst kv = ''gpu_id'' then (fst kv, PList [PStr ''cpu'', PStr ''0'']) else kv)
       sample_form"

definition cpu_form :: "(string \<times> rat pyval) list" where
  "cpu_form =
     map (\<lambda>kv. if fst kv = ''gpu_id'' then (fst kv, PList [PStr ''cpu'']) else kv) sample_form"

text \<open>
  A host that is the given one, except that its validation constructor never sees a
  \<^verbatim>\<open>deepspeed\<close> keyword: the key is dropped from what it is called with.
\<close>

definition without_deepspeed :: "'f host \<Rightarrow> 'f host" where
  "without_deepspeed h =
     h\<lparr> rlhf_arguments := (\<lambda>kw. rlhf_arguments h (dict_del kw ''deepspeed'')) \<rparr>"



section \<open>Facts about the builtins\<close>

lemma py_split_no_sep: "d \<notin> set t \<Longrightarrow> py_split d t = [t]"
  by (induction t) auto

lemma py_split_not_Nil: "py_split d s \<noteq> []"
  by (induction s) (auto split: list.splits)

lemma py_split_append: "d \<notin> set t \<Longrightarrow> py_split d (t @ d # rest) = t # py_split d rest"
  by (induction t) (auto split: list.splits simp: py_split_not_Nil)

lemma py_split_join:
  "ts \<noteq> [] \<Longrightarrow> \<forall>t \<in> set ts. d \<notin> set t \<Longrightarrow> py_split d (py_join [d] ts) = ts"
proof (induction ts rule: induct_list012)
  case 1
  then show ?case by simp
next
  case (2 x)
  then show ?case by (simp add: py_split_no_sep)
next
  case (3 x y ys)
  then show ?case by (simp add: py_split_append)
qed

lemma strs_of_map_PStr: "strs_of (map PStr ts) = Some ts"
  by (induction ts) auto

lemma all_args_join:
  assumes "ts \<noteq> []" and "\<forall>t \<in> set ts. CHR '' '' \<notin> set t \<and> py_strip t \<noteq> []"
  shows "all_args (py_join '' '' ts) = ts"
proof -
  have "py_split CHR '' '' (py_join '' '' ts) = ts"
    using assms by (intro py_split_join) auto
  moreover have "filter (\<lambda>arg. py_strip arg \<noteq> []) ts = ts"
    using assms(2) by (simp add: filter_id_conv)
  ultimately show ?thesis by (simp add: all_args_def)
qed

section \<open>Type coercion\<close>



section \<open>List-valued fields\<close>

text \<open>
  C8, as amended. The command builder splits the stored string at every space and drops
  the fragments that are empty or consist of whitespace only (\<^verbatim>\<open>if arg.strip()\<close>). So
  for a non-empty list of tokens that contain no space and are not made of whitespace
  only: the loop stores the tokens joined by one space and flags the key as a list; the
  builder's re-split gives the same tokens in the same order; and the flag it writes
  joins exactly these tokens with the quoting separator.
\<close>

theorem resplit_roundtrip:
  assumes "ts \<noteq> []"
    and "\<forall>t \<in> set ts. CHR '' '' \<notin> set t \<and> py_strip t \<noteq> []"
  shows "all_args (py_join '' '' ts) = ts \<and>
         (dict_get is_list key = Some True \<longrightarrow>
            serialize_item h is_list (key, PStr (py_join '' '' ts))
              = Inr (flag_text h key (py_join (sep h) ts))) \<and>
         (key \<notin> set ignore_elements \<longrightarrow> default_args h key = Some dflt \<longrightarrow>
            \<not> py_eq h dflt (PList (map PStr ts)) \<longrightarrow>
            bucket h st key (PList (map PStr ts))
              = Inr (st\<lparr> kwargs := dict_set (kwargs st) key (PStr (py_join '' '' ts)),
                        kwargs_is_list := dict_set (kwargs_is_list st) key True \<rparr>))"
proof -
  have rt: "all_args (py_join '' '' ts) = ts"
    using assms by (rule all_args_join)
  have ser: "serialize_item h is_list (key, PStr (py_join '' '' ts))
          = Inr (flag_text h key (py_join (sep h) ts))"
    if "dict_get is_list key = Some True"
    using that rt by (simp add: serialize_item_def)
  have buck: "bucket h st key (PList (map PStr ts))
          = Inr (st\<lparr> kwargs := dict_set (kwargs st) key (PStr (py_join '' '' ts)),
                    kwargs_is_list := dict_set (kwargs_is_list st) key True \<rparr>)"
    if "key \<notin> set ignore_elements" "default_args h key = Some dflt"
       "\<not> py_eq h dflt (PList (map PStr ts))"
    using that assms(1)
    by (simp add: bucket_def truthy_def join_vals_def strs_of_map_PStr)
  from rt ser buck show ?thesis by blast
qed

theorem resplit_roundtrip_witness:
  "all_args (py_join '' '' [''q_proj'', ''v_proj'']) = [''q_proj'', ''v_proj''] \<and>
   serialize_item sample_host [(''target_modules'', True)]
       (''target_modules'', PStr (py_join '' '' [''q_proj'', ''v_proj'']))
     = Inr (flag_text sample_host ''target_modules''
              (py_join (sep sample_host) [''q_proj'', ''v_proj''])) \<and>
   bucket sample_host (init_locals sample_host) ''target_modules''
       (PList (map PStr [''q_proj'', ''v_proj'']))
     = Inr ((init_locals sample_host)
              \<lparr> kwargs := dict_set (kwargs (init_locals sample_host)) ''target_modules''
                            (PStr (py_join '' '' [''q_proj'', ''v_proj''])),
                kwargs_is_list := dict_set (kwargs_is_list (init_locals sample_host))
                            ''target_modules'' True \<rparr>)"
proof -
  have ne: "[''q_proj'', ''v_proj''] \<noteq> []"
    by simp
  have tok: "\<forall>t \<in> set [''q_proj'', ''v_proj'']. CHR '' '' \<notin> set t \<and> py_strip t \<noteq> []"
    by (simp add: py_strip_def is_space_def)
  have fl: "dict_get [(''target_modules'', True)] ''target_modules'' = Some True"
    by (simp add: dict_get_def)
  have k: "''target_modules'' \<notin> set ignore_elements"
    by (simp add: ignore_elements_def)
  have d: "default_args sample_host ''target_modules'' = Some (PList [PStr ''all-linear''])"
    by (simp add: sample_host_def sample_defaults_def)
  have neq: "\<not> py_eq sample_host (PList [PStr ''all-linear''])
                (PList (map PStr [''q_proj'', ''v_proj'']))"
    by simp
  show ?thesis
    using resplit_roundtrip [OF ne tok, of "[(''target_modules'', True)]" "''target_modules''"
        sample_host "PList [PStr ''all-linear'']" "init_locals sample_host"]
      fl k d neq
    by blast
qed

text \<open>
  The round trip as the specification states it, for all non-empty tokens without a space, fails for a token
  that is a tab: it is dropped by the re-split.
\<close>

theorem resplit_roundtrip_counterexample:
  "[CHR 0x09] \<noteq> [] \<and> CHR '' '' \<notin> set [CHR 0x09] \<and>
   ''a'' \<noteq> [] \<and> CHR '' '' \<notin> set ''a'' \<and> ''b'' \<noteq> [] \<and> CHR '' '' \<notin> set ''b'' \<and>
   all_args (py_join '' '' [''a'', [CHR 0x09], ''b'']) = [''a'', ''b''] \<and>
   all_args (py_join '' '' [''a'', [CHR 0x09], ''b'']) \<noteq> [''a'', [CHR 0x09], ''b'']"
  by code_simp

section \<open>Facts about dictionaries and the loop\<close>

lemma dict_get_set: "dict_get (dict_set d k v) k' = (if k' = k then Some v else dict_get d k')"
  by (induction d) (auto simp: dict_get_def)

lemma dict_has_get: "dict_has d k \<longleftrightarrow> dict_get d k \<noteq> None"
  by (simp add: dict_has_def dict_get_def map_of_eq_None_iff)


lemma dict_has_set: "dict_has (dict_set d k v) k' \<longleftrightarrow> k' = k \<or> dict_has d k'"
  by (simp add: dict_has_get dict_get_set)


lemma bucket_effect:
  assumes "bucket h st key val = Inr st1"
  shows "(if explicit_override h key val
          then dict_has (kwargs st1) key \<and> other_kwargs st1 = other_kwargs st
               \<and> (\<forall>k'. k' \<noteq> key \<longrightarrow> dict_get (kwargs st1) k' = dict_get (kwargs st) k')
          else kwargs st1 = kwargs st \<and> other_kwargs st1 = dict_set (other_kwargs st) key val)"
  using assms
  by (auto simp: bucket_def explicit_override_def ignore_elements_def dict_has_set dict_get_set
           split: if_splits pyval.splits sum.splits option.splits)

lemma parse_more_params_keeps:
  "parse_more_params h st key val = Inr st1 \<Longrightarrow>
   kwargs st1 = kwargs st \<and> other_kwargs st1 = other_kwargs st"
  by (auto simp: parse_more_params_def split: if_splits pyval.splits option.splits)

lemma train_step_effect:
  assumes "train_step h st (key, raw) = Inr st1"
  shows "\<exists>val. coerce h raw = Inr val \<and>
          (if explicit_override h key val
           then dict_has (kwargs st1) key \<and> other_kwargs st1 = other_kwargs st
                \<and> (\<forall>k'. k' \<noteq> key \<longrightarrow> dict_get (kwargs st1) k' = dict_get (kwargs st) k')
           else kwargs st1 = kwargs st \<and> other_kwargs st1 = dict_set (other_kwargs st) key val)"
proof -
  from assms obtain val sa sb where c: "coerce h raw = Inr val"
    and b: "bucket h st key val = Inr sa"
    and p: "parse_more_params h sa key val = Inr sb"
    and e: "st1 = (if key = ''train_stage'' then sb\<lparr> train_stage := val \<rparr> else sb)"
    by (auto simp: train_step_def split: sum.splits)
  from parse_more_params_keeps[OF p] e
  have "kwargs st1 = kwargs sa" "other_kwargs st1 = other_kwargs sa" by auto
  with bucket_effect[OF b] c show ?thesis by auto
qed

lemma train_step_other_keys:
  assumes "train_step h st (key, raw) = Inr st1" and "k' \<noteq> key"
  shows "dict_get (kwargs st1) k' = dict_get (kwargs st) k'
       \<and> dict_get (other_kwargs st1) k' = dict_get (other_kwargs st) k'"
  using train_step_effect[OF assms(1)] assms(2)
  by (auto simp: dict_get_set split: if_splits)

lemma train_loop_other_keys:
  "train_loop h st ps = Inr st' \<Longrightarrow> k \<notin> fst ` set ps \<Longrightarrow>
   dict_get (kwargs st') k = dict_get (kwargs st) k
   \<and> dict_get (other_kwargs st') k = dict_get (other_kwargs st) k"
proof (induction ps arbitrary: st)
  case Nil
  then show ?case by simp
next
  case (Cons p ps)
  obtain key raw where p: "p = (key, raw)" by (cases p)
  from Cons.prems obtain s1 where s1: "train_step h st (key, raw) = Inr s1"
    and rest: "train_loop h s1 ps = Inr st'"
    by (auto simp: p split: sum.splits)
  from Cons.prems(2) have "k \<noteq> key" "k \<notin> fst ` set ps" by (auto simp: p)
  with Cons.IH[OF rest] train_step_other_keys[OF s1] show ?case by simp
qed

lemma train_loop_entry:
  assumes "train_loop h st ps = Inr st'" and "distinct (map fst ps)" and "(key, raw) \<in> set ps"
  shows "\<exists>val. coerce h raw = Inr val \<and>
          (if explicit_override h key val
           then dict_has (kwargs st') key
                \<and> dict_get (other_kwargs st') key = dict_get (other_kwargs st) key
           else dict_get (kwargs st') key = dict_get (kwargs st) key
                \<and> dict_get (other_kwargs st') key = Some val)"
  using assms
proof (induction ps arbitrary: st)
  case Nil
  then show ?case by simp
next
  case (Cons p ps)
  obtain k0 r0 where p: "p = (k0, r0)" by (cases p)
  from Cons.prems(1) obtain s1 where s1: "train_step h st (k0, r0) = Inr s1"
    and rest: "train_loop h s1 ps = Inr st'"
    by (auto simp: p split: sum.splits)
  show ?case
  proof (cases "(key, raw) = (k0, r0)")
    case True
    with Cons.prems(2) have notin: "key \<notin> fst ` set ps" by (auto simp: p)
    from train_loop_other_keys[OF rest notin]
    have keep: "dict_get (kwargs st') key = dict_get (kwargs s1) key"
      "dict_get (other_kwargs st') key = dict_get (other_kwargs s1) key" by auto
    from train_step_effect[OF s1] True obtain val where
      c: "coerce h raw = Inr val" and
      eff: "if explicit_override h key val
            then dict_has (kwargs s1) key \<and> other_kwargs s1 = other_kwargs st
                 \<and> (\<forall>k'. k' \<noteq> key \<longrightarrow> dict_get (kwargs s1) k' = dict_get (kwargs st) k')
            else kwargs s1 = kwargs st \<and> other_kwargs s1 = dict_set (other_kwargs st) key val"
      by auto
    from c eff keep show ?thesis
      by (auto simp: dict_has_get dict_get_set split: if_splits)
  next
    case False
    with Cons.prems(3) have mem: "(key, raw) \<in> set ps" by (auto simp: p)
    from Cons.prems(2) mem have "key \<noteq> k0" by (force simp: p)
    from train_step_other_keys[OF s1 this]
    have same: "dict_get (kwargs s1) key = dict_get (kwargs st) key"
      "dict_get (other_kwargs s1) key = dict_get (other_kwargs st) key" by auto
    from Cons.prems(2) have "distinct (map fst ps)" by simp
    from Cons.IH[OF rest this mem] same show ?thesis by auto
  qed
qed

section \<open>Bucketing of the form values\<close>

text \<open>
  C4. The keys of a submission are the keys of the form's element table, so no key occurs
  twice. After the loop, for every pair \<open>(key, raw)\<close> of the submission, with \<open>val\<close>
  the coerced value: the key is in the explicit-override map \<^verbatim>\<open>kwargs\<close> if and only if it
  is not in the ignore-set, has a default, differs from it and is truthy; in every other
  case it is in \<^verbatim>\<open>other_kwargs\<close> with its coerced value, and in particular so whenever the
  coerced value equals its default.
\<close>

theorem loop_buckets:
  assumes "train_loop h (init_locals h) pairs = Inr st"
    and "distinct (map fst pairs)"
    and "(key, raw) \<in> set pairs"
  shows "\<exists>val. coerce h raw = Inr val
           \<and> (dict_has (kwargs st) key \<longleftrightarrow> explicit_override h key val)
           \<and> (dict_has (other_kwargs st) key \<longleftrightarrow> \<not> explicit_override h key val)
           \<and> (\<not> explicit_override h key val \<longrightarrow> dict_get (other_kwargs st) key = Some val)
           \<and> (\<forall>d. default_args h key = Some d \<longrightarrow> py_eq h d val \<longrightarrow>
                  \<not> dict_has (kwargs st) key \<and> dict_get (other_kwargs st) key = Some val)"
proof -
  from train_loop_entry[OF assms] obtain val where c: "coerce h raw = Inr val"
    and e: "if explicit_override h key val
            then dict_has (kwargs st) key
                 \<and> dict_get (other_kwargs st) key = dict_get (other_kwargs (init_locals h)) key
            else dict_get (kwargs st) key = dict_get (kwargs (init_locals h)) key
                 \<and> dict_get (other_kwargs st) key = Some val"
    by blast
  have empty: "dict_get (kwargs (init_locals h)) key = None"
    "dict_get (other_kwargs (init_locals h)) key = None"
    by (simp_all add: init_locals_def dict_get_def)
  have eq_no: "\<not> explicit_override h key val" if "default_args h key = Some d" "py_eq h d val" for d
    using that by (simp add: explicit_override_def)
  from c e empty eq_no show ?thesis
    by (auto simp: dict_has_get split: if_splits)
qed

theorem loop_buckets_witness:
  "dict_has (kwargs (projr (train_loop sample_host (init_locals sample_host) sample_form))) ''model'' \<and>
   \<not> dict_has (other_kwargs (projr (train_loop sample_host (init_locals sample_host) sample_form))) ''model'' \<and>
   \<not> dict_has (kwargs (projr (train_loop sample_host (init_locals sample_host) sample_form)))
       ''gradient_checkpointing'' \<and>
   dict_get (other_kwargs (projr (train_loop sample_host (init_locals sample_host) sample_form)))
       ''gradient_checkpointing'' = Some (PBool True)"
proof -
  let ?st = "projr (train_loop sample_host (init_locals sample_host) sample_form)"
  have run: "train_loop sample_host (init_locals sample_host) sample_form = Inr ?st"
    by code_simp
  have keys: "distinct (map fst sample_form)"
    by code_simp
  have m: "(''model'', PStr ''m'') \<in> set sample_form"
    and g: "(''gradient_checkpointing'', PStr ''true'') \<in> set sample_form"
    by (simp_all add: sample_form_def)
  have cm: "coerce sample_host (PStr ''m'') = Inr (PStr ''m'')"
    and cg: "coerce sample_host (PStr ''true'') = Inr (PBool True)"
    by code_simp+
  have om: "explicit_override sample_host ''model'' (PStr ''m'')"
    and og: "\<not> explicit_override sample_host ''gradient_checkpointing'' (PBool True)"
    by code_simp+
  show ?thesis
    using loop_buckets [OF run keys m] loop_buckets [OF run keys g] cm cg om og
    by auto
qed

section \<open>Which exceptions leave \<^verbatim>\<open>train\<close>\<close>

lemma user_facing_simps [simp]:
  "user_facing (GrError msg)" "\<not> user_facing TypeError" "\<not> user_facing ValueError"
  "\<not> user_facing (KeyError k)" "\<not> user_facing AttributeError" "\<not> user_facing AssertionError"
  "\<not> user_facing OverflowError" "\<not> user_facing UnicodeDecodeError"
  "\<not> user_facing (ExternalError msg)"
  by (simp_all add: user_facing_def)

lemma train_step_error: "train_step h st kv = Inl e \<Longrightarrow> \<not> user_facing e"
  by (auto simp: train_step_def coerce_def bucket_def parse_more_params_def join_vals_def
        user_facing_def
      split: sum.splits pyval.splits if_splits option.splits)

lemma train_loop_error: "train_loop h st ps = Inl e \<Longrightarrow> \<not> user_facing e"
  by (induction ps arbitrary: st) (auto split: sum.splits dest: train_step_error)

lemma update_pairs_error: "update_pairs m es = Inl e \<Longrightarrow> \<not> user_facing e"
  by (induction es arbitrary: m)
     (auto simp: user_facing_def split: option.splits list.splits if_splits pyval.splits)

lemma dict_update_error: "dict_update d v = Inl e \<Longrightarrow> \<not> user_facing e"
  by (auto simp: dict_update_def split: pyval.splits option.splits dest: update_pairs_error)

lemma os_path_exists_error: "os_path_exists h v = Inl e \<Longrightarrow> \<not> user_facing e"
  by (auto simp: os_path_exists_def fd_check_def user_facing_def
      split: pyval.splits option.splits)

lemma detect_checkpoint_error: "detect_checkpoint h kw = Inl e \<Longrightarrow> \<not> user_facing e"
  by (auto simp: detect_checkpoint_def dict_pop_def user_facing_def
      split: sum.splits if_splits pyval.splits option.splits dest: os_path_exists_error)

lemma construct_args_error: "construct_args h ns il kw = Inl e \<Longrightarrow> \<not> user_facing e"
  by (auto simp: construct_args_def dict_pop_def user_facing_def Let_def
      split: sum.splits if_splits option.splits)

lemma serialize_item_error: "serialize_item h il kv = Inl e \<Longrightarrow> \<not> user_facing e"
  by (auto simp: serialize_item_def join_vals_def user_facing_def
      split: pyval.splits sum.splits if_splits option.splits)

lemma serialize_kwargs_error: "serialize_kwargs h il p kw = Inl e \<Longrightarrow> \<not> user_facing e"
  by (induction kw arbitrary: p) (auto split: sum.splits dest: serialize_item_error)

lemma build_params_error: "build_params h il kw sfx a = Inl e \<Longrightarrow> \<not> user_facing e"
  by (auto simp: build_params_def split: sum.splits dest: serialize_kwargs_error)

lemma py_int_of_error: "py_int_of h v = Inl e \<Longrightarrow> \<not> user_facing e"
  by (auto simp: py_int_of_def split: pyval.splits option.splits if_splits)

lemma ddp_param_error: "ddp_param h other = Inl e \<Longrightarrow> \<not> user_facing e"
  by (auto simp: ddp_param_def dict_item_def user_facing_def
      split: sum.splits option.splits if_splits dest: py_int_of_error)

lemma launch_env_error: "launch_env h other = Inl e \<Longrightarrow> \<not> user_facing e"
  by (auto simp: launch_env_def dict_item_def check_devices_def join_vals_def user_facing_def
      split: sum.splits option.splits if_splits pyval.splits dest: ddp_param_error)

lemma assemble_error: "assemble h pairs st r = Inl e \<Longrightarrow> \<not> user_facing e"
  by (auto simp: assemble_def split: sum.splits dest: build_params_error launch_env_error)

lemma resolve_user_facing:
  "resolve h st = Inl (GrError msg) \<longleftrightarrow>
     (\<exists>m. dict_update (kwargs st) (more_params st) = Inr m
          \<and> \<not> dict_has (merged_kwargs m) ''dataset''
          \<and> \<not> dict_has (merged_kwargs m) ''custom_train_dataset_path''
          \<and> msg = dataset_alert h)"
proof (cases "dict_update (kwargs st) (more_params st)")
  case (Inl e)
  with dict_update_error[OF Inl] show ?thesis
    by (auto simp: resolve_def user_facing_def)
next
  case (Inr m)
  show ?thesis
  proof (cases "check_dataset h (merged_kwargs m)")
    case (Inl e)
    with Inr show ?thesis
      by (auto simp: resolve_def check_dataset_def split: if_splits)
  next
    case ok: (Inr u)
    have no: "resolve h st \<noteq> Inl (GrError msg)"
    proof
      assume r: "resolve h st = Inl (GrError msg)"
      then show False
        using Inr ok
        by (auto simp: resolve_def user_facing_def split: sum.splits prod.splits
            dest!: detect_checkpoint_error construct_args_error)
    qed
    from ok have "dict_has (merged_kwargs m) ''dataset''
                   \<or> dict_has (merged_kwargs m) ''custom_train_dataset_path''"
      by (auto simp: check_dataset_def split: if_splits)
    with no Inr show ?thesis by auto
  qed
qed

section \<open>The dataset check\<close>

text \<open>
  C1. \<^verbatim>\<open>train\<close> raises the user-facing validation error exactly when the loop and the
  merge go through and the merged overrides contain neither the key \<^verbatim>\<open>dataset\<close> nor the
  key \<^verbatim>\<open>custom_train_dataset_path\<close>; with either key present no such error is raised.
  Whenever \<^verbatim>\<open>train\<close> raises, no command string is returned, \<^verbatim>\<open>train_studio\<close> yields
  nothing and spawns nothing, and \<^verbatim>\<open>train_local\<close> runs nothing.
\<close>

theorem dataset_required:
  "(train h pairs = Inl (GrError msg) \<longleftrightarrow>
      (\<exists>st m. train_loop h (init_locals h) pairs = Inr st
          \<and> dict_update (kwargs st) (more_params st) = Inr m
          \<and> \<not> dict_has (merged_kwargs m) ''dataset''
          \<and> \<not> dict_has (merged_kwargs m) ''custom_train_dataset_path''
          \<and> msg = dataset_alert h))
   \<and> (\<forall>e. train h pairs = Inl e \<longrightarrow>
          train_studio h env pairs = \<lparr> spawned = None, updates = [], raised = Some e \<rparr>
          \<and> train_local h pairs = Inl e)"
proof (intro conjI allI impI)
  show "train h pairs = Inl (GrError msg) \<longleftrightarrow>
      (\<exists>st m. train_loop h (init_locals h) pairs = Inr st
          \<and> dict_update (kwargs st) (more_params st) = Inr m
          \<and> \<not> dict_has (merged_kwargs m) ''dataset''
          \<and> \<not> dict_has (merged_kwargs m) ''custom_train_dataset_path''
          \<and> msg = dataset_alert h)"
  proof (cases "train_loop h (init_locals h) pairs")
    case (Inl e)
    with train_loop_error[OF Inl] show ?thesis
      by (auto simp: train_def user_facing_def)
  next
    case (Inr st)
    show ?thesis
    proof (cases "resolve h st")
      case (Inl e)
      with Inr resolve_user_facing[of h st msg] show ?thesis
        by (auto simp: train_def)
    next
      case r: (Inr r)
      have "assemble h pairs st r \<noteq> Inl (GrError msg)"
        using assemble_error[of h pairs st r "GrError msg"] by (auto simp: user_facing_def)
      with Inr r resolve_user_facing[of h st msg] show ?thesis
        by (auto simp: train_def)
    qed
  qed
next
  fix e assume "train h pairs = Inl e"
  then show "train_studio h env pairs = \<lparr> spawned = None, updates = [], raised = Some e \<rparr>"
    by (simp add: train_studio_def)
next
  fix e assume "train h pairs = Inl e"
  then show "train_local h pairs = Inl e"
    by (simp add: train_local_def)
qed

theorem dataset_required_witness:
  "train sample_host no_dataset_form = Inl (GrError ''Please input or select a dataset'') \<and>
   train_studio sample_host (sample_studio None []) no_dataset_form
     = \<lparr> spawned = None, updates = [],
         raised = Some (GrError ''Please input or select a dataset'') \<rparr> \<and>
   train_local sample_host no_dataset_form = Inl (GrError ''Please input or select a dataset'') \<and>
   train sample_host sample_form \<noteq> Inl (GrError ''Please input or select a dataset'')"
proof -
  let ?msg = "''Please input or select a dataset''"
  let ?st = "projr (train_loop sample_host (init_locals sample_host) no_dataset_form)"
  let ?m = "projr (dict_update (kwargs ?st) (more_params ?st))"
  have loop: "train_loop sample_host (init_locals sample_host) no_dataset_form = Inr ?st"
    by code_simp
  have upd: "dict_update (kwargs ?st) (more_params ?st) = Inr ?m"
    by code_simp
  have none: "\<not> dict_has (merged_kwargs ?m) ''dataset''
              \<and> \<not> dict_has (merged_kwargs ?m) ''custom_train_dataset_path''"
    by code_simp
  have msg: "?msg = dataset_alert sample_host"
    by (simp add: sample_host_def)
  note inst = dataset_required [of sample_host no_dataset_form ?msg "sample_studio None []"]
  from loop upd none msg have fails: "train sample_host no_dataset_form = Inl (GrError ?msg)"
    using inst by blast
  with inst have quiet:
    "train_studio sample_host (sample_studio None []) no_dataset_form
       = \<lparr> spawned = None, updates = [], raised = Some (GrError ?msg) \<rparr>"
    "train_local sample_host no_dataset_form = Inl (GrError ?msg)"
    by blast+
  let ?st2 = "projr (train_loop sample_host (init_locals sample_host) sample_form)"
  let ?m2 = "projr (dict_update (kwargs ?st2) (more_params ?st2))"
  have loop2: "train_loop sample_host (init_locals sample_host) sample_form = Inr ?st2"
    by code_simp
  have upd2: "dict_update (kwargs ?st2) (more_params ?st2) = Inr ?m2"
    by code_simp
  have has: "dict_has (merged_kwargs ?m2) ''dataset''"
    by code_simp
  have passes: "train sample_host sample_form \<noteq> Inl (GrError ?msg)"
  proof
    assume "train sample_host sample_form = Inl (GrError ?msg)"
    with dataset_required [of sample_host sample_form ?msg "sample_studio None []"]
    obtain st m where "train_loop sample_host (init_locals sample_host) sample_form = Inr st"
      and "dict_update (kwargs st) (more_params st) = Inr m"
      and "\<not> dict_has (merged_kwargs m) ''dataset''"
      by blast
    with loop2 upd2 has show False by simp
  qed
  from fails quiet passes show ?thesis by blast
qed

section \<open>The missing model\<close>

text \<open>
  C9. When the loop and the merge go through and the merged overrides contain a dataset
  key but no \<^verbatim>\<open>model\<close> key, \<^verbatim>\<open>kwargs.get('model')\<close> is \<^verbatim>\<open>None\<close>, \<^verbatim>\<open>os.path.exists\<close>
  raises \<^verbatim>\<open>TypeError\<close> on it, and that exception, not the user-facing validation error,
  leaves \<^verbatim>\<open>train\<close>.
\<close>

theorem model_required:
  assumes "train_loop h (init_locals h) pairs = Inr st"
    and "dict_update (kwargs st) (more_params st) = Inr m"
    and "dict_has (merged_kwargs m) ''dataset'' \<or> dict_has (merged_kwargs m) ''custom_train_dataset_path''"
    and "\<not> dict_has (merged_kwargs m) ''model''"
  shows "train h pairs = Inl TypeError"
proof -
  from assms(4) have "kwargs_model (merged_kwargs m) = PNone"
    by (simp add: kwargs_model_def dict_has_get)
  then have "detect_checkpoint h (merged_kwargs m) = Inl TypeError"
    by (simp add: detect_checkpoint_def os_path_exists_def)
  with assms(2,3) have "resolve h st = Inl TypeError"
    by (auto simp: resolve_def check_dataset_def)
  with assms(1) show ?thesis by (simp add: train_def)
qed

theorem model_required_witness:
  "train sample_host no_model_form = Inl TypeError \<and> \<not> user_facing TypeError"
proof -
  let ?st = "projr (train_loop sample_host (init_locals sample_host) no_model_form)"
  let ?m = "projr (dict_update (kwargs ?st) (more_params ?st))"
  have loop: "train_loop sample_host (init_locals sample_host) no_model_form = Inr ?st"
    by code_simp
  have upd: "dict_update (kwargs ?st) (more_params ?st) = Inr ?m"
    by code_simp
  have ds: "dict_has (merged_kwargs ?m) ''dataset''
            \<or> dict_has (merged_kwargs ?m) ''custom_train_dataset_path''"
    by code_simp
  have nm: "\<not> dict_has (merged_kwargs ?m) ''model''"
    by code_simp
  show ?thesis
    using model_required [OF loop upd ds nm] by simp
qed

section \<open>The streaming runner\<close>

lemma log_maxlen_two: "log_maxlen (Some ''2'') = Inr 2"
  by code_simp

lemma read_lines_abc:
  "read_lines [] ''a\<newline>b\<newline>c\<newline>'' = [''a\<newline>'', ''b\<newline>'', ''c\<newline>'']"
  by code_simp

lemma decode_ascii:
  "list_all (\<lambda>c. (of_char c :: nat) < 128) raw \<Longrightarrow> decode_utf8 env raw = Some raw"
  by (simp add: decode_utf8_def)

lemma stream_abc:
  "map fst (fst (stream_updates env cmd 2 0 [] [''a\<newline>'', ''b\<newline>'', ''c\<newline>'']))
     = [''a\<newline>'', ''a\<newline>\<newline>b\<newline>'', ''b\<newline>\<newline>c\<newline>'']"
  "snd (stream_updates env cmd 2 0 [] [''a\<newline>'', ''b\<newline>'', ''c\<newline>'']) = None"
  by (simp_all add: decode_ascii deque_append_def Let_def)

text \<open>
  C2, as amended. \<^verbatim>\<open>readline\<close> keeps the newline that ends each line, and the buffered
  lines are joined by one more newline. In streaming (non-dry-run) mode, with the buffer
  size set to 2 by the environment variable and a child that writes the three lines
  \<^verbatim>\<open>a\<close>, \<^verbatim>\<open>b\<close>, \<^verbatim>\<open>c\<close>, the runner spawns the command, yields exactly three updates, one
  after each line, and the log text of the last update is \<^verbatim>\<open>b\<close>, newline, newline,
  \<^verbatim>\<open>c\<close>, newline.
\<close>

theorem studio_three_lines:
  assumes "train h pairs = Inr r"
    and "dict_get (others r) ''dry_run'' = Some dry" and "\<not> truthy h dry"
    and "max_log_lines env = Some ''2''"
    and "child_output env = ''a\<newline>b\<newline>c\<newline>''"
  shows "spawned (train_studio h env pairs) = Some (run_command r)
       \<and> length (updates (train_studio h env pairs)) = 3
       \<and> map fst (updates (train_studio h env pairs))
           = [''a\<newline>'', ''a\<newline>\<newline>b\<newline>'', ''b\<newline>\<newline>c\<newline>'']
       \<and> fst (last (updates (train_studio h env pairs))) = ''b\<newline>\<newline>c\<newline>''
       \<and> raised (train_studio h env pairs) = None"
proof -
  let ?out = "stream_updates env (run_command r) 2 0 [] [''a\<newline>'', ''b\<newline>'', ''c\<newline>'']"
  have run: "train_studio h env pairs
               = \<lparr> spawned = Some (run_command r), updates = fst ?out, raised = snd ?out \<rparr>"
    using assms
    by (simp add: train_studio_def dict_item_def log_maxlen_two read_lines_abc Let_def)
  have texts: "map fst (fst ?out) = [''a\<newline>'', ''a\<newline>\<newline>b\<newline>'', ''b\<newline>\<newline>c\<newline>'']"
    by (rule stream_abc)
  then have len: "length (fst ?out) = 3"
    by (metis length_map length_Cons list.size(3) numeral_3_eq_3)
  from texts have "fst ?out \<noteq> []" by auto
  then have "fst (last (fst ?out)) = last (map fst (fst ?out))"
    by (simp add: last_map)
  with texts have lastt: "fst (last (fst ?out)) = ''b\<newline>\<newline>c\<newline>''" by simp
  from run texts len lastt stream_abc(2) show ?thesis by simp
qed

theorem studio_three_lines_witness:
  "spawned (train_studio sample_host (sample_studio (Some ''2'') ''a\<newline>b\<newline>c\<newline>'') sample_form)
     = Some (run_command (projr (train sample_host sample_form))) \<and>
   length (updates (train_studio sample_host
       (sample_studio (Some ''2'') ''a\<newline>b\<newline>c\<newline>'') sample_form)) = 3 \<and>
   fst (last (updates (train_studio sample_host
       (sample_studio (Some ''2'') ''a\<newline>b\<newline>c\<newline>'') sample_form))) = ''b\<newline>\<newline>c\<newline>''"
proof -
  let ?r = "projr (train sample_host sample_form)"
  let ?env = "sample_studio (Some ''2'') ''a\<newline>b\<newline>c\<newline>''"
  have t: "train sample_host sample_form = Inr ?r"
    by code_simp
  have d: "dict_get (others ?r) ''dry_run'' = Some (PBool False)"
    by code_simp
  have f: "\<not> truthy sample_host (PBool False)"
    by (simp add: truthy_def)
  have v: "max_log_lines ?env = Some ''2''" and c: "child_output ?env = ''a\<newline>b\<newline>c\<newline>''"
    by (simp_all add: sample_studio_def)
  show ?thesis
    using studio_three_lines [OF t d f v c] by simp
qed

text \<open>
  The specification gives \<^verbatim>\<open>b\<close>, newline, \<^verbatim>\<open>c\<close> for the last update. On the
  sample host the last update holds the doubled newline, whether or not the child ends its
  last line.
\<close>

theorem studio_three_lines_counterexample:
  "fst (last (updates (train_studio sample_host
       (sample_studio (Some ''2'') ''a\<newline>b\<newline>c\<newline>'') sample_form))) = ''b\<newline>\<newline>c\<newline>'' \<and>
   fst (last (updates (train_studio sample_host
       (sample_studio (Some ''2'') ''a\<newline>b\<newline>c'') sample_form))) = ''b\<newline>\<newline>c'' \<and>
   ''b\<newline>\<newline>c\<newline>'' \<noteq> ''b\<newline>c'' \<and> ''b\<newline>\<newline>c'' \<noteq> ''b\<newline>c''"
  by code_simp

section \<open>The free-form overrides\<close>

lemma parse_more_params_text:
  "s \<noteq> [] \<Longrightarrow> json_loads h s = None \<Longrightarrow>
   parse_more_params h st ''more_params'' (PStr s) = Inr (st\<lparr> more_params_cmd := s \<rparr>)"
  by (simp add: parse_more_params_def truthy_def)

lemma parse_more_params_coerced:
  "truthy h val \<Longrightarrow> \<forall>s. val \<noteq> PStr s \<Longrightarrow>
   parse_more_params h st ''more_params'' val = Inl TypeError"
  by (cases val) (simp_all add: parse_more_params_def)

text \<open>
  Where the free-form overrides behave as described: a text that the loop leaves a string
  and that is not JSON becomes the suffix and reaches the command line as it is, and a
  JSON object is merged key by key, its values replacing those of the form.
\<close>

lemma py_contains_iff: "py_contains sub s \<longleftrightarrow> (\<exists>a b. s = a @ sub @ b)"
proof (induction s)
  case Nil
  then show ?case by auto
next
  case (Cons c cs)
  show ?case
  proof
    assume "py_contains sub (c # cs)"
    then consider "prefix sub (c # cs)" | "py_contains sub cs" by auto
    then show "\<exists>a b. c # cs = a @ sub @ b"
    proof cases
      case 1
      then obtain b where "c # cs = sub @ b" by (auto simp: prefix_def)
      then have "c # cs = [] @ sub @ b" by simp
      then show ?thesis by blast
    next
      case 2
      with Cons.IH obtain a b where "cs = a @ sub @ b" by blast
      then have "c # cs = (c # a) @ sub @ b" by simp
      then show ?thesis by blast
    qed
  next
    assume "\<exists>a b. c # cs = a @ sub @ b"
    then obtain a b where ab: "c # cs = a @ sub @ b" by blast
    show "py_contains sub (c # cs)"
    proof (cases a)
      case Nil
      with ab have "prefix sub (c # cs)" by (simp add: prefix_def)
      then show ?thesis by simp
    next
      case (Cons x a')
      with ab have "cs = a' @ sub @ b" by simp
      with Cons.IH have "py_contains sub cs" by blast
      then show ?thesis by simp
    qed
  qed
qed

lemma train_step_cmd_other:
  "train_step h st (k, raw) = Inr st1 \<Longrightarrow> k \<noteq> ''more_params'' \<Longrightarrow>
   more_params_cmd st1 = more_params_cmd st"
  by (auto simp: train_step_def bucket_def parse_more_params_def
      split: sum.splits if_splits pyval.splits)

lemma train_step_cmd_text:
  assumes "train_step h st (''more_params'', PStr s) = Inr st1"
    and "s \<noteq> []" and "\<not> int_regex h s" and "\<not> float_regex h s" and "\<not> bool_regex h s"
    and "json_loads h s = None"
  shows "more_params_cmd st1 = s"
  using assms
  by (auto simp: train_step_def coerce_def bucket_def parse_more_params_def truthy_def
        ignore_elements_def
      split: sum.splits if_splits)

lemma train_loop_cmd_other:
  "train_loop h st ps = Inr st' \<Longrightarrow> ''more_params'' \<notin> fst ` set ps \<Longrightarrow>
   more_params_cmd st' = more_params_cmd st"
proof (induction ps arbitrary: st)
  case Nil
  then show ?case by simp
next
  case (Cons p ps)
  obtain k raw where p: "p = (k, raw)" by (cases p)
  from Cons.prems obtain s1 where s1: "train_step h st (k, raw) = Inr s1"
    and rest: "train_loop h s1 ps = Inr st'"
    by (auto simp: p split: sum.splits)
  from Cons.prems(2) have "k \<noteq> ''more_params''" "''more_params'' \<notin> fst ` set ps"
    by (auto simp: p)
  with Cons.IH[OF rest] train_step_cmd_other[OF s1] show ?case by simp
qed

lemma train_loop_cmd_text:
  assumes "train_loop h st ps = Inr st'" and "distinct (map fst ps)"
    and "(''more_params'', PStr s) \<in> set ps"
    and "s \<noteq> []" and "\<not> int_regex h s" and "\<not> float_regex h s" and "\<not> bool_regex h s"
    and "json_loads h s = None"
  shows "more_params_cmd st' = s"
  using assms(1-3)
proof (induction ps arbitrary: st)
  case Nil
  then show ?case by simp
next
  case (Cons p ps)
  obtain k raw where p: "p = (k, raw)" by (cases p)
  from Cons.prems(1) obtain s1 where s1: "train_step h st (k, raw) = Inr s1"
    and rest: "train_loop h s1 ps = Inr st'"
    by (auto simp: p split: sum.splits)
  show ?case
  proof (cases "(k, raw) = (''more_params'', PStr s)")
    case True
    with Cons.prems(2) have "''more_params'' \<notin> fst ` set ps" by (auto simp: p)
    from train_loop_cmd_other[OF rest this] train_step_cmd_text[OF _ assms(4-8)] s1 True
    show ?thesis by auto
  next
    case False
    with Cons.prems(3) have "(''more_params'', PStr s) \<in> set ps" by (auto simp: p)
    moreover from Cons.prems(2) have "distinct (map fst ps)" by simp
    ultimately show ?thesis using Cons.IH[OF rest] by blast
  qed
qed

lemma pop_deepspeed_suffix:
  "\<exists>t. snd (pop_deepspeed h kw s) = s @ t"
  by (auto simp: pop_deepspeed_def split: option.splits)

lemma build_params_suffix:
  "build_params h il kw sfx a = Inr params \<Longrightarrow> \<exists>x y. params = x @ sfx @ y"
  by (auto simp: build_params_def split: sum.splits)

lemma build_command_params:
  "\<exists>x y. build_command h l cmd params a = x @ params @ y"
proof (cases "platform_win32 h")
  case True
  have "build_command h l cmd params a
        = (set_clause (cuda l) @ set_clause (ddp l) @ win_envs (envs l) @ ''start /b swift sft '')
          @ params @ ('' > '' @ path_join h (logging_dir a) ''run.log'' @ '' 2>&1'')"
    using True by (simp add: build_command_def Let_def)
  then show ?thesis by blast
next
  case False
  have "build_command h l cmd params a
        = (cuda l @ '' '' @ ddp l @ '' '' @ envs l @ '' nohup swift '' @ py_str h cmd @ '' '')
          @ params @ ('' > '' @ path_join h (logging_dir a) ''run.log'' @ '' 2>&1 &'')"
    using False by (simp add: build_command_def Let_def)
  then show ?thesis by blast
qed

lemma train_command_has_suffix:
  assumes "train h pairs = Inr r" and "train_loop h (init_locals h) pairs = Inr st"
  shows "py_contains (more_params_cmd st) (run_command r)"
proof -
  from assms obtain rr params l where
    rr: "resolve h st = Inr rr" and
    bp: "build_params h (kwargs_is_list st) (final_kwargs rr) (suffix_cmd rr) (validated rr) = Inr params" and
    rc: "run_command r = build_command h l (train_stage st) params (validated rr)"
    by (auto simp: train_def assemble_def split: sum.splits)
  from rr obtain kw1 where "suffix_cmd rr = snd (pop_deepspeed h kw1 (more_params_cmd st))"
    by (auto simp: resolve_def split: sum.splits prod.splits)
  with pop_deepspeed_suffix[of h kw1 "more_params_cmd st"]
  obtain t where t: "suffix_cmd rr = more_params_cmd st @ t" by auto
  from build_params_suffix[OF bp] obtain x y where "params = x @ suffix_cmd rr @ y" by blast
  with t have p: "params = x @ more_params_cmd st @ (t @ y)" by simp
  from build_command_params[of h l "train_stage st" params "validated rr"] rc
  obtain u v where "run_command r = u @ params @ v" by auto
  with p have "run_command r = (u @ x) @ more_params_cmd st @ (t @ y @ v)" by simp
  then show ?thesis unfolding py_contains_iff by blast
qed

lemma free_form_text_verbatim:
  assumes "train h pairs = Inr r" and "distinct (map fst pairs)"
    and "(''more_params'', PStr s) \<in> set pairs"
    and "s \<noteq> []" and "\<not> int_regex h s" and "\<not> float_regex h s" and "\<not> bool_regex h s"
    and "json_loads h s = None"
  shows "py_contains s (run_command r)"
proof -
  from assms(1) obtain st where st: "train_loop h (init_locals h) pairs = Inr st"
    by (auto simp: train_def split: sum.splits)
  from train_loop_cmd_text[OF st assms(2-8)] train_command_has_suffix[OF assms(1) st]
  show ?thesis by simp
qed

lemma fold_dict_set_get:
  "dict_get (fold (\<lambda>p acc. dict_set acc (fst p) (snd p)) kvs d) k
     = (case map_of (rev kvs) k of Some v \<Rightarrow> Some v | None \<Rightarrow> dict_get d k)"
proof (induction kvs arbitrary: d)
  case Nil
  then show ?case by simp
next
  case (Cons p kvs)
  then show ?case
    by (cases p) (auto simp: dict_get_set map_add_def split: option.splits)
qed

lemma free_form_mapping_wins:
  assumes "dict_update d (PDict kvs) = Inr m"
  shows "dict_get (merged_kwargs m) k
           = (case map_of (rev kvs) k of Some v \<Rightarrow> Some v | None \<Rightarrow> dict_get d k)"
  using assms by (auto simp: dict_update_def fold_dict_set_get)

text \<open>
  C7. The specification asks that a free-form text that is not JSON raises no error and reaches
  the command line as it is. The text \<^verbatim>\<open>True\<close> is not JSON, but the loop has coerced it
  to the boolean \<open>True\<close> before \<^verbatim>\<open>json.loads\<close> sees it; \<^verbatim>\<open>json.loads\<close> raises
  \<^verbatim>\<open>TypeError\<close> on a value that is not a string, and the clause
  \<^verbatim>\<open>except (JSONDecodeError or TypeError)\<close> does not catch it.
\<close>

theorem free_form_true_raises:
  "json_loads sample_host ''True'' = None \<and>
   coerce sample_host (PStr ''True'') = Inr (PBool True) \<and>
   train sample_host true_params_form = Inl TypeError"
  by code_simp

section \<open>The deepspeed flag\<close>

text \<open>Nothing but the constructor call depends on the constructor of the host.\<close>

lemma fields_wd [simp]:
  "int_regex (without_deepspeed h) = int_regex h"
  "float_regex (without_deepspeed h) = float_regex h"
  "bool_regex (without_deepspeed h) = bool_regex h"
  "py_float (without_deepspeed h) = py_float h"
  "float_eq (without_deepspeed h) = float_eq h"
  "float_eq_int (without_deepspeed h) = float_eq_int h"
  "float_nonzero (without_deepspeed h) = float_nonzero h"
  "default_args (without_deepspeed h) = default_args h"
  "element_is_list (without_deepspeed h) = element_is_list h"
  "json_loads (without_deepspeed h) = json_loads h"
  "ui_group (without_deepspeed h) = ui_group h"
  "ui_quote (without_deepspeed h) = ui_quote h"
  "dataset_alert (without_deepspeed h) = dataset_alert h"
  "path_exists (without_deepspeed h) = path_exists h"
  "path_join (without_deepspeed h) = path_join h"
  "fd_exists (without_deepspeed h) = fd_exists h"
  "platform_win32 (without_deepspeed h) = platform_win32 h"
  "is_torch_npu_available (without_deepspeed h) = is_torch_npu_available h"
  "is_torch_cuda_available (without_deepspeed h) = is_torch_cuda_available h"
  "repr_of (without_deepspeed h) = repr_of h"
  "float_trunc (without_deepspeed h) = float_trunc h"
  "float_is_nan (without_deepspeed h) = float_is_nan h"
  "rlhf_arguments (without_deepspeed h) kw = rlhf_arguments h (dict_del kw ''deepspeed'')"
  by (simp_all add: without_deepspeed_def)

lemmas case_congs = pyval.case_cong sum.case_cong option.case_cong if_cong

lemma truthy_wd [simp]: "truthy (without_deepspeed h) = truthy h"
  by (rule ext) (simp add: truthy_def cong: case_congs)

lemma py_eq_wd [simp]:
  "py_eq (without_deepspeed h) a b = py_eq h a b"
  "py_eq_list (without_deepspeed h) xs ys = py_eq_list h xs ys"
  "py_eq_items (without_deepspeed h) kvs kvs' = py_eq_items h kvs kvs'"
  by (induction h a b and h xs ys and h kvs kvs' rule: py_eq_py_eq_list_py_eq_items.induct)
     (auto split: pyval.splits list.splits option.splits)

lemma coerce_wd [simp]: "coerce (without_deepspeed h) v = coerce h v"
  by (simp add: coerce_def cong: case_congs)

lemma bucket_wd [simp]: "bucket (without_deepspeed h) st key val = bucket h st key val"
  by (simp add: bucket_def cong: case_congs)

lemma parse_more_params_wd [simp]:
  "parse_more_params (without_deepspeed h) st key val = parse_more_params h st key val"
  by (simp add: parse_more_params_def cong: case_congs)

lemma train_step_wd [simp]: "train_step (without_deepspeed h) st kv = train_step h st kv"
  by (simp add: train_step_def cong: case_congs)

lemma train_loop_wd [simp]: "train_loop (without_deepspeed h) st ps = train_loop h st ps"
  by (induction ps arbitrary: st) (simp_all cong: case_congs)

lemma init_locals_wd [simp]: "init_locals (without_deepspeed h) = init_locals h"
  by (simp add: init_locals_def)

lemma detect_checkpoint_wd [simp]: "detect_checkpoint (without_deepspeed h) kw = detect_checkpoint h kw"
  by (simp add: detect_checkpoint_def os_path_exists_def fd_check_def cong: case_congs)

lemma py_str_wd [simp]: "py_str (without_deepspeed h) v = py_str h v"
  by (simp add: py_str_def cong: case_congs)

lemma pop_deepspeed_wd [simp]: "pop_deepspeed (without_deepspeed h) kw s = pop_deepspeed h kw s"
  by (simp add: pop_deepspeed_def cong: case_congs)

lemma serialize_item_wd [simp]: "serialize_item (without_deepspeed h) il kv = serialize_item h il kv"
  by (simp add: serialize_item_def flag_text_def sep_def cong: case_congs)

lemma serialize_kwargs_wd [simp]:
  "serialize_kwargs (without_deepspeed h) il p kw = serialize_kwargs h il p kw"
  by (induction kw arbitrary: p) (simp_all cong: case_congs)

lemma py_int_of_wd [simp]: "py_int_of (without_deepspeed h) v = py_int_of h v"
  by (simp add: py_int_of_def cong: case_congs)

lemma ddp_param_wd [simp]: "ddp_param (without_deepspeed h) other = ddp_param h other"
  by (simp add: ddp_param_def cong: case_congs)

lemma cuda_param_wd [simp]: "cuda_param (without_deepspeed h) gpus = cuda_param h gpus"
  by (simp add: cuda_param_def)

lemma launch_env_wd [simp]: "launch_env (without_deepspeed h) other = launch_env h other"
  by (simp add: launch_env_def cong: case_congs)

lemma cache_record_wd [simp]: "cache_record (without_deepspeed h) pairs = cache_record h pairs"
  by (simp add: cache_record_def cong: if_cong)

lemma build_params_wd [simp]:
  "build_params (without_deepspeed h) il kw sfx a = build_params h il kw sfx a"
  by (simp add: build_params_def cong: case_congs)

lemma build_command_wd [simp]:
  "build_command (without_deepspeed h) l cmd params a = build_command h l cmd params a"
  by (simp add: build_command_def Let_def cong: if_cong)

lemma assemble_wd [simp]: "assemble (without_deepspeed h) pairs st r = assemble h pairs st r"
  by (simp add: assemble_def cong: case_congs)


lemma dict_has_call_kwargs [simp]: "dict_has (call_kwargs il kw) k = dict_has kw k"
  by (simp add: dict_has_def call_kwargs_def image_image)







section \<open>The retry of the validation constructor\<close>




section \<open>Device selection\<close>

lemma strs_of_Some: "strs_of xs = Some names \<Longrightarrow> xs = map PStr names"
  by (induction xs arbitrary: names) (auto split: pyval.splits option.splits)

lemma launch_env_ok:
  assumes "launch_env h other = Inr l"
  obtains gpu ds names where "dict_get other ''gpu_id'' = Some gpu" and "py_iter gpu = Some ds"
    and "devices l = filter (truthy h) ds"
    and "check_devices (devices l) = Inr ()"
    and "strs_of (devices l) = Some names"
    and "cuda l = cuda_param h (py_join '','' names)"
  using assms
  by (auto simp: launch_env_def dict_item_def join_vals_def
      split: sum.splits option.splits pyval.splits if_splits)

lemma train_ok:
  assumes "train h pairs = Inr r"
  obtains st rr params l where "train_loop h (init_locals h) pairs = Inr st"
    and "resolve h st = Inr rr"
    and "launch_env h (other_kwargs st) = Inr l"
    and "others r = other_kwargs st"
    and "run_command r = build_command h l (train_stage st) params (validated rr)"
  using assms
  by (auto simp: train_def assemble_def split: sum.splits)

lemma build_command_prefix:
  "prefix (if platform_win32 h then set_clause (cuda l) else cuda l)
     (build_command h l cmd params a)"
  by (simp add: build_command_def Let_def)

text \<open>
  C5. For every submission for which \<^verbatim>\<open>train\<close> returns a command, the selected devices
  (the truthy entries of \<^verbatim>\<open>gpu_id\<close>) are all strings and satisfy the assertion of line
  365: exactly one device is selected, or \<^verbatim>\<open>cpu\<close> is not among them. The
  device-visibility assignment at the head of the command lists exactly these devices,
  joined by commas; when \<^verbatim>\<open>cpu\<close> is among them it is the only one and no assignment is
  written at all, so \<^verbatim>\<open>cpu\<close> never stands beside another device. A selection of more or
  fewer than one device that includes \<^verbatim>\<open>cpu\<close> fails the assertion, and a submission with
  such a selection never returns a command.
\<close>

theorem device_selection:
  "(train h pairs = Inr r \<longrightarrow>
      (\<exists>l gpu ds names.
          dict_get (others r) ''gpu_id'' = Some gpu \<and> py_iter gpu = Some ds
          \<and> launch_env h (others r) = Inr l
          \<and> devices l = filter (truthy h) ds
          \<and> (length (devices l) = 1 \<or> PStr ''cpu'' \<notin> set (devices l))
          \<and> devices l = map PStr names
          \<and> cuda l = cuda_param h (py_join '','' names)
          \<and> (''cpu'' \<in> set names \<longrightarrow> names = [''cpu''] \<and> cuda l = [])
          \<and> prefix (if platform_win32 h then set_clause (cuda l) else cuda l) (run_command r)))
   \<and> (length devs \<noteq> 1 \<longrightarrow> PStr ''cpu'' \<in> set devs \<longrightarrow> check_devices devs = Inl AssertionError)
   \<and> (train_loop h (init_locals h) pairs = Inr st \<longrightarrow>
        dict_get (other_kwargs st) ''gpu_id'' = Some gpu0 \<longrightarrow> py_iter gpu0 = Some ds0 \<longrightarrow>
        length (filter (truthy h) ds0) \<noteq> 1 \<longrightarrow> PStr ''cpu'' \<in> set (filter (truthy h) ds0) \<longrightarrow>
        (\<exists>e. train h pairs = Inl e))
   \<and> (chosen \<noteq> [] \<longrightarrow> (\<forall>n \<in> set chosen. CHR '','' \<notin> set n) \<longrightarrow>
        py_split CHR '','' (py_join '','' chosen) = chosen)"
proof -
  have built: "\<exists>l gpu ds names.
          dict_get (other_kwargs st') ''gpu_id'' = Some gpu \<and> py_iter gpu = Some ds
          \<and> launch_env h (other_kwargs st') = Inr l
          \<and> devices l = filter (truthy h) ds
          \<and> (length (devices l) = 1 \<or> PStr ''cpu'' \<notin> set (devices l))
          \<and> devices l = map PStr names
          \<and> cuda l = cuda_param h (py_join '','' names)
          \<and> (''cpu'' \<in> set names \<longrightarrow> names = [''cpu''] \<and> cuda l = [])
          \<and> prefix (if platform_win32 h then set_clause (cuda l) else cuda l) (run_command r')
          \<and> others r' = other_kwargs st'"
    if ok: "train h pairs = Inr r'" and lp: "train_loop h (init_locals h) pairs = Inr st'" for r' st'
  proof -
    from ok obtain stx rr params l where
      sx: "train_loop h (init_locals h) pairs = Inr stx" and
      rx: "resolve h stx = Inr rr" and
      lx: "launch_env h (other_kwargs stx) = Inr l" and
      ox: "others r' = other_kwargs stx" and
      cx: "run_command r' = build_command h l (train_stage stx) params (validated rr)"
      by (rule train_ok)
    from sx lp have same: "stx = st'" by simp
    from lx ox cx same have
      l: "launch_env h (other_kwargs st') = Inr l" and
      o: "others r' = other_kwargs st'" and
      c: "run_command r' = build_command h l (train_stage st') params (validated rr)"
      by simp_all
    from l obtain gpu ds names where
      g: "dict_get (other_kwargs st') ''gpu_id'' = Some gpu" "py_iter gpu = Some ds" and
      d: "devices l = filter (truthy h) ds" and
      chk: "check_devices (devices l) = Inr ()" and
      n: "strs_of (devices l) = Some names" and
      cu: "cuda l = cuda_param h (py_join '','' names)"
      by (rule launch_env_ok)
    from chk have one: "length (devices l) = 1 \<or> PStr ''cpu'' \<notin> set (devices l)"
      by (auto simp: check_devices_def split: if_splits)
    from n have names: "devices l = map PStr names"
      by (rule strs_of_Some)
    have cpu: "names = [''cpu''] \<and> cuda l = []" if "''cpu'' \<in> set names"
    proof -
      from that names have "PStr ''cpu'' \<in> set (devices l)" by auto
      with one have "length (devices l) = 1" by blast
      with names have "length names = 1" by simp
      with that have "names = [''cpu'']" by (cases names) auto
      with cu show ?thesis by (simp add: cuda_param_def)
    qed
    from c have p: "prefix (if platform_win32 h then set_clause (cuda l) else cuda l) (run_command r')"
      by (simp add: build_command_prefix)
    from g l d one names cu cpu p o show ?thesis by blast
  qed
  have first: "\<exists>l gpu ds names.
          dict_get (others r) ''gpu_id'' = Some gpu \<and> py_iter gpu = Some ds
          \<and> launch_env h (others r) = Inr l
          \<and> devices l = filter (truthy h) ds
          \<and> (length (devices l) = 1 \<or> PStr ''cpu'' \<notin> set (devices l))
          \<and> devices l = map PStr names
          \<and> cuda l = cuda_param h (py_join '','' names)
          \<and> (''cpu'' \<in> set names \<longrightarrow> names = [''cpu''] \<and> cuda l = [])
          \<and> prefix (if platform_win32 h then set_clause (cuda l) else cuda l) (run_command r)"
    if ok: "train h pairs = Inr r"
  proof -
    from ok obtain st' where "train_loop h (init_locals h) pairs = Inr st'"
      by (auto simp: train_def split: sum.splits)
    from built[OF ok this] obtain l gpu ds names where
      "dict_get (other_kwargs st') ''gpu_id'' = Some gpu" "py_iter gpu = Some ds"
      "launch_env h (other_kwargs st') = Inr l"
      "devices l = filter (truthy h) ds"
      "length (devices l) = 1 \<or> PStr ''cpu'' \<notin> set (devices l)"
      "devices l = map PStr names"
      "cuda l = cuda_param h (py_join '','' names)"
      "''cpu'' \<in> set names \<longrightarrow> names = [''cpu''] \<and> cuda l = []"
      "prefix (if platform_win32 h then set_clause (cuda l) else cuda l) (run_command r)"
      "others r = other_kwargs st'"
      by blast
    then show ?thesis
      by (intro exI[of _ l] exI[of _ gpu] exI[of _ ds] exI[of _ names]) simp
  qed
  have second: "check_devices devs = Inl AssertionError"
    if "length devs \<noteq> 1" "PStr ''cpu'' \<in> set devs"
    using that by (simp add: check_devices_def)
  have third: "\<exists>e. train h pairs = Inl e"
    if lp: "train_loop h (init_locals h) pairs = Inr st"
      and g: "dict_get (other_kwargs st) ''gpu_id'' = Some gpu0" "py_iter gpu0 = Some ds0"
      and bad: "length (filter (truthy h) ds0) \<noteq> 1" "PStr ''cpu'' \<in> set (filter (truthy h) ds0)"
  proof (cases "train h pairs")
    case (Inl e)
    then show ?thesis by blast
  next
    case (Inr r')
    from built[OF Inr lp] obtain l gpu ds names where
      g': "dict_get (other_kwargs st) ''gpu_id'' = Some gpu" "py_iter gpu = Some ds" and
      "launch_env h (other_kwargs st) = Inr l" and
      d': "devices l = filter (truthy h) ds" and
      one': "length (devices l) = 1 \<or> PStr ''cpu'' \<notin> set (devices l)" and
      "devices l = map PStr names"
      "cuda l = cuda_param h (py_join '','' names)"
      "''cpu'' \<in> set names \<longrightarrow> names = [''cpu''] \<and> cuda l = []"
      "prefix (if platform_win32 h then set_clause (cuda l) else cuda l) (run_command r')"
      "others r' = other_kwargs st"
      by blast
    from g g' have "ds = ds0" by simp
    with d' one' have "length (filter (truthy h) ds0) = 1 \<or> PStr ''cpu'' \<notin> set (filter (truthy h) ds0)"
      by simp
    with bad show ?thesis by auto
  qed
  have fourth: "py_split CHR '','' (py_join '','' chosen) = chosen"
    if "chosen \<noteq> []" "\<forall>n \<in> set chosen. CHR '','' \<notin> set n"
    using that by (rule py_split_join)
  from first second third fourth show ?thesis by blast
qed


theorem device_selection_witness:
  "devices (projr (launch_env sample_host (others (projr (train sample_host cpu_form)))))
     = [PStr ''cpu''] \<and>
   cuda (projr (launch_env sample_host (others (projr (train sample_host cpu_form))))) = [] \<and>
   cuda (projr (launch_env sample_host (others (projr (train sample_host sample_form)))))
     = ''CUDA_VISIBLE_DEVICES=0,1'' \<and>
   check_devices [PStr ''cpu'', PStr ''0'' :: rat pyval] = Inl AssertionError \<and>
   train sample_host mixed_devices_form = Inl AssertionError \<and>
   py_split CHR '','' (py_join '','' [''0'', ''1'']) = [''0'', ''1'']"
proof -
  let ?r = "projr (train sample_host cpu_form)"
  let ?l = "projr (launch_env sample_host (others ?r))"
  let ?st = "projr (train_loop sample_host (init_locals sample_host) mixed_devices_form)"
  let ?mixed = "[PStr ''cpu'', PStr ''0''] :: rat pyval list"
  note inst = device_selection [of sample_host cpu_form ?r ?mixed
      "projr (train_loop sample_host (init_locals sample_host) cpu_form)"
      "PList [PStr ''cpu'']" "[PStr ''cpu'']" "[''0'', ''1'']"]
  note inst_mixed = device_selection [of sample_host mixed_devices_form ?r ?mixed ?st
      "PList ?mixed" ?mixed "[''0'', ''1'']"]
  have t: "train sample_host cpu_form = Inr ?r"
    by code_simp
  have le: "launch_env sample_host (others ?r) = Inr ?l"
    by code_simp
  have dv: "devices ?l = [PStr ''cpu'']"
    by code_simp
  from inst t obtain l names where
    l: "launch_env sample_host (others ?r) = Inr l" and
    n: "devices l = map PStr names" and
    c: "''cpu'' \<in> set names \<longrightarrow> names = [''cpu''] \<and> cuda l = []"
    by blast
  from l le have same: "l = ?l" by simp
  with n dv have "''cpu'' \<in> set names" by auto
  with c same have cpu: "cuda ?l = []" by simp
  have two: "cuda (projr (launch_env sample_host (others (projr (train sample_host sample_form)))))
     = ''CUDA_VISIBLE_DEVICES=0,1''"
    by code_simp
  have len: "length ?mixed \<noteq> 1" and mem: "PStr ''cpu'' \<in> set ?mixed"
    by simp_all
  from inst len mem have chk: "check_devices ?mixed = Inl AssertionError"
    by blast
  have lp: "train_loop sample_host (init_locals sample_host) mixed_devices_form = Inr ?st"
    by code_simp
  have g: "dict_get (other_kwargs ?st) ''gpu_id'' = Some (PList ?mixed)"
    by code_simp
  have it: "py_iter (PList ?mixed) = Some ?mixed"
    by (simp add: py_iter_def)
  have f: "filter (truthy sample_host) ?mixed = ?mixed"
    by (simp add: truthy_def)
  from inst_mixed lp g it f have aborts: "\<exists>e. train sample_host mixed_devices_form = Inl e"
    by simp
  have which: "train sample_host mixed_devices_form = Inl AssertionError"
    by code_simp
  have ne: "[''0'', ''1''] \<noteq> []" and nc: "\<forall>n \<in> set [''0'', ''1'']. CHR '','' \<notin> set n"
    by simp_all
  from inst ne nc have sp: "py_split CHR '','' (py_join '','' [''0'', ''1'']) = [''0'', ''1'']"
    by blast
  from dv cpu two chk aborts which sp show ?thesis
    by simp
qed

end
